theory Spec2Isabelle
  imports Complex_Main "HOL-Library.Multiset" "HOL-Library.Product_Lexorder"
begin

section \<open>Values of numpy arrays\<close>

text \<open>
  The statistical engine of \<^verbatim>\<open>modules/core_bsa.py\<close> computes on numpy arrays. The
  read-depth columns of the variant table are arrays of 64-bit signed integers, whose sums
  and products wrap around silently; every division and every logarithm gives an array of
  double-precision numbers.

  An element of a double-precision array is modelled as a real number or one of the three
  special values of IEEE 754 that the code can produce and that it relies on
  (\<^verbatim>\<open>np.seterr(all='ignore')\<close>): the two infinities and not-a-number.
  Arithmetic on finite values is the exact arithmetic of the reals: rounding, overflow
  to infinity and the sign of zero are not part of the model, so a statement about the
  sign of a result that cancels to the size of its rounding error is outside it. The rules for the special
  values are those of IEEE 754: \<^verbatim>\<open>x / 0\<close> is an infinity with the sign of \<open>x\<close>,
  \<^verbatim>\<open>0 / 0\<close>, \<^verbatim>\<open>inf - inf\<close> and \<^verbatim>\<open>0 * inf\<close> are not-a-number, not-a-number
  propagates through every operation, and every comparison with it is false.
\<close>

datatype npfloat = Fin real | PInf | NInf | NaN

instantiation npfloat :: "{plus, uminus, minus, times, inverse, ord}"
begin

fun plus_npfloat :: "npfloat \<Rightarrow> npfloat \<Rightarrow> npfloat" where
  "plus_npfloat NaN y = NaN"
| "plus_npfloat x NaN = NaN"
| "plus_npfloat (Fin a) (Fin b) = Fin (a + b)"
| "plus_npfloat PInf NInf = NaN"
| "plus_npfloat NInf PInf = NaN"
| "plus_npfloat PInf y = PInf"
| "plus_npfloat x PInf = PInf"
| "plus_npfloat NInf y = NInf"
| "plus_npfloat x NInf = NInf"

fun uminus_npfloat :: "npfloat \<Rightarrow> npfloat" where
  "uminus_npfloat (Fin a) = Fin (- a)"
| "uminus_npfloat PInf = NInf"
| "uminus_npfloat NInf = PInf"
| "uminus_npfloat NaN = NaN"

definition minus_npfloat :: "npfloat \<Rightarrow> npfloat \<Rightarrow> npfloat" where
  "minus_npfloat x y = x + (- y)"

fun times_npfloat :: "npfloat \<Rightarrow> npfloat \<Rightarrow> npfloat" where
  "times_npfloat NaN y = NaN"
| "times_npfloat x NaN = NaN"
| "times_npfloat (Fin a) (Fin b) = Fin (a * b)"
| "times_npfloat (Fin a) PInf = (if 0 < a then PInf else if a < 0 then NInf else NaN)"
| "times_npfloat (Fin a) NInf = (if 0 < a then NInf else if a < 0 then PInf else NaN)"
| "times_npfloat PInf (Fin b) = (if 0 < b then PInf else if b < 0 then NInf else NaN)"
| "times_npfloat NInf (Fin b) = (if 0 < b then NInf else if b < 0 then PInf else NaN)"
| "times_npfloat PInf PInf = PInf"
| "times_npfloat PInf NInf = NInf"
| "times_npfloat NInf PInf = NInf"
| "times_npfloat NInf NInf = PInf"

fun divide_npfloat :: "npfloat \<Rightarrow> npfloat \<Rightarrow> npfloat" where
  "divide_npfloat NaN y = NaN"
| "divide_npfloat x NaN = NaN"
| "divide_npfloat (Fin a) (Fin b) =
     (if b \<noteq> 0 then Fin (a / b)
      else if 0 < a then PInf else if a < 0 then NInf else NaN)"
| "divide_npfloat (Fin a) PInf = Fin 0"
| "divide_npfloat (Fin a) NInf = Fin 0"
| "divide_npfloat PInf (Fin b) = (if 0 \<le> b then PInf else NInf)"
| "divide_npfloat NInf (Fin b) = (if 0 \<le> b then NInf else PInf)"
| "divide_npfloat PInf y = NaN"
| "divide_npfloat NInf y = NaN"

definition inverse_npfloat :: "npfloat \<Rightarrow> npfloat" where
  "inverse_npfloat x = divide (Fin 1) x"

fun less_npfloat :: "npfloat \<Rightarrow> npfloat \<Rightarrow> bool" where
  "less_npfloat NaN y = False"
| "less_npfloat x NaN = False"
| "less_npfloat (Fin a) (Fin b) = (a < b)"
| "less_npfloat x NInf = False"
| "less_npfloat PInf y = False"
| "less_npfloat NInf y = True"
| "less_npfloat (Fin a) PInf = True"

definition less_eq_npfloat :: "npfloat \<Rightarrow> npfloat \<Rightarrow> bool" where
  "less_eq_npfloat x y = (x < y \<or> (x = y \<and> x \<noteq> NaN))"

instance ..

end

text \<open>\<^verbatim>\<open>==\<close> and \<^verbatim>\<open>!=\<close> on array elements: not-a-number equals nothing, itself included.\<close>

definition np_eq :: "npfloat \<Rightarrow> npfloat \<Rightarrow> bool" where
  "np_eq x y = (x = y \<and> x \<noteq> NaN)"

definition np_ne :: "npfloat \<Rightarrow> npfloat \<Rightarrow> bool" where
  "np_ne x y = (\<not> np_eq x y)"

text \<open>\<^verbatim>\<open>np.log\<close>: minus infinity at zero, not-a-number below it.\<close>

fun np_log :: "npfloat \<Rightarrow> npfloat" where
  "np_log (Fin a) = (if 0 < a then Fin (ln a) else if a = 0 then NInf else NaN)"
| "np_log PInf = PInf"
| "np_log NInf = NaN"
| "np_log NaN = NaN"

definition isfinite :: "npfloat \<Rightarrow> bool" where
  "isfinite x = (case x of Fin a \<Rightarrow> True | _ \<Rightarrow> False)"

text \<open>
  \<^verbatim>\<open>np.isclose(a, b)\<close> with numpy's default tolerances \<^verbatim>\<open>rtol=1e-05\<close>,
  \<^verbatim>\<open>atol=1e-08\<close>, \<^verbatim>\<open>equal_nan=False\<close>: finite values are compared with
  \<^verbatim>\<open>abs(a - b) <= atol + rtol * abs(b)\<close>, all others with \<^verbatim>\<open>==\<close>.
\<close>

definition rtol :: real where
  "rtol = 1 / 100000"

definition atol :: real where
  "atol = 1 / 100000000"

fun isclose :: "npfloat \<Rightarrow> npfloat \<Rightarrow> bool" where
  "isclose (Fin a) (Fin b) = (\<bar>a - b\<bar> \<le> atol + rtol * \<bar>b\<bar>)"
| "isclose x y = np_eq x y"

section \<open>FeatureProduction: delta-SNP ratio and G-statistic\<close>

text \<open>
  An element of an \<^verbatim>\<open>int64\<close> array is an integer from \<open>-2^63\<close> up to \<open>2^63 - 1\<close>. The sum
  and the product of two such elements are reduced into that range, as numpy does without
  warning. Dividing converts both operands to double precision first.
\<close>

definition int64 :: "int \<Rightarrow> int" where
  "int64 x = (x + 2 ^ 63) mod 2 ^ 64 - 2 ^ 63"

definition to_float :: "int \<Rightarrow> npfloat" where
  "to_float x = Fin (real_of_int x)"

text \<open>
  \<^verbatim>\<open>_delta_snp_array\<close> and \<^verbatim>\<open>_g_statistic_array\<close> are elementwise array expressions on
  the four read-depth columns. Each is modelled by the function of one element, written
  line by line as the source is, and the array function applies it at every index of four
  columns of one table. In \<^verbatim>\<open>2 * wtr * np.log(wtr / e1)\<close> the product \<^verbatim>\<open>2 * wtr\<close> is
  an integer product, taken first.
\<close>

definition delta_snp :: "int \<Rightarrow> int \<Rightarrow> int \<Rightarrow> int \<Rightarrow> npfloat" where
  "delta_snp wtr wta mur mua =
     (to_float wtr / to_float (int64 (wtr + wta)))
     - (to_float mur / to_float (int64 (mur + mua)))"

definition g_statistic :: "int \<Rightarrow> int \<Rightarrow> int \<Rightarrow> int \<Rightarrow> npfloat" where
  "g_statistic wtr wta mur mua =
    (let zero_mask = (int64 (int64 (int64 (wtr + mur) + wta) + mua) \<noteq> 0);
         denominator = to_float (int64 (int64 (int64 (wtr + mur) + wta) + mua));
         e1 = (if zero_mask
               then to_float (int64 (int64 (wtr + mur) * int64 (wtr + wta))) / denominator
               else Fin 0);
         e2 = (if zero_mask
               then to_float (int64 (int64 (wtr + mur) * int64 (mur + mua))) / denominator
               else Fin 0);
         e3 = (if zero_mask
               then to_float (int64 (int64 (wta + mua) * int64 (wtr + wta))) / denominator
               else Fin 0);
         e4 = (if zero_mask
               then to_float (int64 (int64 (wta + mua) * int64 (mur + mua))) / denominator
               else Fin 0);
         llr1 = (if Fin 0 < to_float wtr / e1
                 then to_float (int64 (2 * wtr)) * np_log (to_float wtr / e1) else Fin 0);
         llr2 = (if Fin 0 < to_float mur / e2
                 then to_float (int64 (2 * mur)) * np_log (to_float mur / e2) else Fin 0);
         llr3 = (if Fin 0 < to_float wta / e3
                 then to_float (int64 (2 * wta)) * np_log (to_float wta / e3) else Fin 0);
         llr4 = (if Fin 0 < to_float mua / e4
                 then to_float (int64 (2 * mua)) * np_log (to_float mua / e4) else Fin 0)
     in if np_eq (e1 * e2 * e3 * e4) (Fin 0) then Fin 0 else llr1 + llr2 + llr3 + llr4)"

fun zip4 :: "'a list \<Rightarrow> 'b list \<Rightarrow> 'c list \<Rightarrow> 'd list \<Rightarrow> ('a \<times> 'b \<times> 'c \<times> 'd) list" where
  "zip4 ws xs ys zs = zip ws (zip xs (zip ys zs))"

definition delta_snp_array :: "int list \<Rightarrow> int list \<Rightarrow> int list \<Rightarrow> int list \<Rightarrow> npfloat list" where
  "delta_snp_array wtr wta mur mua =
     map (\<lambda>(a, b, c, d). delta_snp a b c d) (zip4 wtr wta mur mua)"

definition g_statistic_array :: "int list \<Rightarrow> int list \<Rightarrow> int list \<Rightarrow> int list \<Rightarrow> npfloat list" where
  "g_statistic_array wtr wta mur mua =
     map (\<lambda>(a, b, c, d). g_statistic a b c d) (zip4 wtr wta mur mua)"

text \<open>
  The G-statistic as the specification words it, on real numbers: the expected counts from
  the marginal totals of the two-by-two table of bulk by allele, a term
  \<open>2 * observed * ln (observed / expected)\<close> that is 0 when the ratio is not positive, the
  guard on the grand total and the guard on the product of the expected counts. It is the
  right-hand side that \<^const>\<open>g_statistic\<close> is compared with.
\<close>

definition llr_term :: "real \<Rightarrow> real \<Rightarrow> real" where
  "llr_term observed expected =
     (if observed / expected \<le> 0 then 0 else 2 * observed * ln (observed / expected))"

definition g_statistic_spec :: "real \<Rightarrow> real \<Rightarrow> real \<Rightarrow> real \<Rightarrow> real" where
  "g_statistic_spec wtr wta mur mua =
    (let total = wtr + wta + mur + mua;
         e1 = (wtr + mur) * (wtr + wta) / total;
         e2 = (wtr + mur) * (mur + mua) / total;
         e3 = (wta + mua) * (wtr + wta) / total;
         e4 = (wta + mua) * (mur + mua) / total
     in if total = 0 then 0
        else if e1 * e2 * e3 * e4 = 0 then 0
        else llr_term wtr e1 + llr_term mur e2 + llr_term wta e3 + llr_term mua e4)"

section \<open>Tables, slices and the smoothing of one chromosome\<close>

text \<open>
  A table (a pandas data frame) is the list of its rows, in row order. A row of the table
  that \<^verbatim>\<open>fit_model\<close> receives has the columns of the variant table and the three
  features computed from them; smoothing adds the three fitted columns, labelling the
  three flags.
\<close>

record variant =
  chrom :: string
  pos :: int
  wt_ref :: int
  wt_alt :: int
  mu_ref :: int
  mu_alt :: int
  ratio :: npfloat
  G_S :: npfloat
  RS_G :: npfloat

record fitted = variant +
  ratio_yhat :: npfloat
  GS_yhat :: npfloat
  RS_G_yhat :: npfloat

record labeled = fitted +
  G_S_05p :: nat
  RS_G_05p :: nat
  RS_G_yhat_01p :: nat

text \<open>
  Python's slice \<^verbatim>\<open>xs[start:stop]\<close> of a list, an array or (by position) the rows of a
  data frame: a negative bound counts from the end, and a bound outside the sequence is
  clamped to it. \<^verbatim>\<open>xs[::-1]\<close> is \<^const>\<open>rev\<close>.
\<close>

definition slice_index :: "nat \<Rightarrow> int \<Rightarrow> nat" where
  "slice_index n i =
     (if i < 0 then (if int n + i < 0 then 0 else nat (int n + i))
      else (if int n < i then n else nat i))"

definition py_slice :: "'a list \<Rightarrow> int option \<Rightarrow> int option \<Rightarrow> 'a list" where
  "py_slice xs start stop =
     (let n = length xs;
          lo = (case start of None \<Rightarrow> 0 | Some i \<Rightarrow> slice_index n i);
          hi = (case stop of None \<Rightarrow> n | Some j \<Rightarrow> slice_index n j)
      in take (hi - lo) (drop lo xs))"

text \<open>
  The smoothing function is a parameter of the source (\<^verbatim>\<open>run_pipeline\<close> passes
  statsmodels' \<^verbatim>\<open>lowess\<close>). It is called as
  \<^verbatim>\<open>smoothing_function(Y, X, frac=loess_span)[:, 1]\<close>; the model's parameter gives that
  column of fitted values, or \<^const>\<open>None\<close> when the call raises.
\<close>

type_synonym smoother = "npfloat list \<Rightarrow> npfloat list \<Rightarrow> real \<Rightarrow> npfloat list option"

text \<open>
  \<^verbatim>\<open>LogHandler.fail\<close> logs its message and calls \<^verbatim>\<open>quit()\<close>: the process ends. Every
  \<^verbatim>\<open>except Exception\<close> clause of the engine calls it, so a function of the engine either
  returns or ends the process.
\<close>

datatype exit = SystemExit

text \<open>
  The list comprehension that turns the positions of a facet into their differences. The
  positions are the elements of an \<^verbatim>\<open>int64\<close> array, so a difference is reduced into the
  64-bit range.
\<close>

definition deltas_of :: "int list \<Rightarrow> int list" where
  "deltas_of positions =
     map (\<lambda>i. if 0 < i then int64 (positions ! i - positions ! (i - 1)) else positions ! i)
       [0..<length positions]"

definition deltas_mirrored_ends :: "int \<Rightarrow> int list \<Rightarrow> int list" where
  "deltas_mirrored_ends smooth_edges_bounds positions =
     (let deltas = deltas_of positions;
          deltas_pos_inv = py_slice (rev deltas) (Some (- smooth_edges_bounds)) (Some (- 1));
          deltas_neg_inv = py_slice (rev deltas) (Some 1) (Some smooth_edges_bounds)
      in deltas_pos_inv @ deltas @ deltas_neg_inv)"

text \<open>
  The loop that accumulates the pseudo positions: at index 0 it appends 0, at every later
  index the delta plus the pseudo position before it, a sum of 64-bit integers.
\<close>

definition psuedo_pos_step :: "int list \<Rightarrow> nat \<times> int \<Rightarrow> int list" where
  "psuedo_pos_step psuedo_pos ip =
     (case ip of (i, p) \<Rightarrow>
        if i = 0 then psuedo_pos @ [0] else psuedo_pos @ [int64 (p + psuedo_pos ! (i - 1))])"

definition psuedo_pos_of :: "int list \<Rightarrow> int list" where
  "psuedo_pos_of deltas_mirrored = foldl psuedo_pos_step [] (enumerate 0 deltas_mirrored)"

definition df_chr_padded :: "int \<Rightarrow> 'a list \<Rightarrow> 'a list" where
  "df_chr_padded smooth_edges_bounds df_chr =
     (let df_chr_inv_neg = py_slice (rev df_chr) (Some (- smooth_edges_bounds)) (Some (- 1));
          df_chr_inv_pos = py_slice (rev df_chr) (Some 1) (Some smooth_edges_bounds)
      in df_chr_inv_neg @ df_chr @ df_chr_inv_pos)"

definition add_fit :: "variant \<times> npfloat \<times> npfloat \<times> npfloat \<Rightarrow> fitted" where
  "add_fit rf = (case rf of (r, ry, gy, rgy) \<Rightarrow> variant.extend r (fitted.fields ry gy rgy))"

text \<open>
  \<^verbatim>\<open>_fit_single_chr\<close>. Assigning a column whose length is not the number of rows raises
  a \<^verbatim>\<open>ValueError\<close>; that and an exception of the smoothing function end in the
  \<^verbatim>\<open>except\<close> clause. The column \<^verbatim>\<open>pseudo_pos\<close> is added to the padded table and dropped
  from the result again, so the rows of the model do not carry it.
\<close>

definition fit_single_chr :: "smoother \<Rightarrow> real \<Rightarrow> int \<Rightarrow> variant list \<Rightarrow> exit + fitted list" where
  "fit_single_chr smoothing_function loess_span smooth_edges_bounds df_chr =
     (let positions = map pos df_chr;
          psuedo_pos = psuedo_pos_of (deltas_mirrored_ends smooth_edges_bounds positions);
          df_pad = df_chr_padded smooth_edges_bounds df_chr
      in if length psuedo_pos \<noteq> length df_pad then Inl SystemExit
         else
           let X = map (\<lambda>p. Fin (real_of_int p)) psuedo_pos in
           case smoothing_function (map ratio df_pad) X loess_span of
             None \<Rightarrow> Inl SystemExit
           | Some ratio_yhat_col \<Rightarrow>
               if length ratio_yhat_col \<noteq> length df_pad then Inl SystemExit
               else
                 case smoothing_function (map G_S df_pad) X loess_span of
                   None \<Rightarrow> Inl SystemExit
                 | Some GS_yhat_col \<Rightarrow>
                     if length GS_yhat_col \<noteq> length df_pad then Inl SystemExit
                     else
                       case smoothing_function (map RS_G df_pad) X loess_span of
                         None \<Rightarrow> Inl SystemExit
                       | Some RS_G_yhat_col \<Rightarrow>
                           if length RS_G_yhat_col \<noteq> length df_pad then Inl SystemExit
                           else Inr (py_slice
                                  (map add_fit (zip df_pad (zip ratio_yhat_col (zip GS_yhat_col RS_G_yhat_col))))
                                  (Some smooth_edges_bounds) (Some (- smooth_edges_bounds))))"

text \<open>
  The padding as the specification words it: the reversed last \<open>edge_bound - 1\<close> entries in
  front of the facet and the reversed entries \<open>1\<close> to \<open>edge_bound - 1\<close> (for the rows: the
  first \<open>edge_bound - 1\<close> rows) behind it.
\<close>

definition spec_deltas_mirrored_ends :: "int \<Rightarrow> int list \<Rightarrow> int list" where
  "spec_deltas_mirrored_ends edge_bound positions =
     (let deltas = deltas_of positions
      in rev (py_slice deltas (Some (- (edge_bound - 1))) None) @ deltas
         @ rev (py_slice deltas (Some 1) (Some edge_bound)))"

definition spec_df_chr_padded :: "int \<Rightarrow> 'a list \<Rightarrow> 'a list" where
  "spec_df_chr_padded edge_bound df_chr =
     rev (py_slice df_chr (Some (- (edge_bound - 1))) None) @ df_chr
     @ rev (py_slice df_chr None (Some (edge_bound - 1)))"

text \<open>
  A facet for examples: one variant per position, its ratio the position (so that a row
  is recognised by its values), and a smoothing function that returns its input.
\<close>

definition example_variant :: "int \<Rightarrow> variant" where
  "example_variant p =
     \<lparr>chrom = ''1'', pos = p, wt_ref = 10, wt_alt = 10, mu_ref = 5,
      mu_alt = 15, ratio = Fin (real_of_int p), G_S = Fin 3, RS_G = Fin 1\<rparr>"

definition example_facet :: "variant list" where
  "example_facet = map example_variant [10, 20, 40, 70, 110, 160, 220]"

definition returns_input :: smoother where
  "returns_input ys xs fr = Some ys"

section \<open>EmpiricalCutoffEstimator: the subsample fraction\<close>

text \<open>
  \<^verbatim>\<open>np.interp(x, xp, fp)\<close>, numpy's piecewise linear interpolation through the points
  \<open>(xp, fp)\<close> with increasing \<open>xp\<close>: below the first point it is the first value, above the
  last point the last value, and between two neighbouring points the line through them.
\<close>

fun interp_from :: "real \<Rightarrow> real list \<Rightarrow> real list \<Rightarrow> real" where
  "interp_from x (x0 # x1 # xp) (f0 # f1 # fp) =
     (if x < x1 then (f1 - f0) / (x1 - x0) * (x - x0) + f0
      else interp_from x (x1 # xp) (f1 # fp))"
| "interp_from x xp [f0] = f0"
| "interp_from x xp fp = 0"

definition np_interp :: "real \<Rightarrow> real list \<Rightarrow> real list \<Rightarrow> real" where
  "np_interp x xp fp =
     (if x < hd xp then hd fp else if last xp < x then last fp else interp_from x xp fp)"

text \<open>
  The fraction of the table that one bootstrap trial draws, as
  \<^verbatim>\<open>calculate_empirical_cutoffs\<close> computes it from the number of rows.
\<close>

definition subsample_frac :: "nat \<Rightarrow> real" where
  "subsample_frac n =
     (if 20000 < n then 5 / 100
      else if n < 1000 then 1
      else np_interp (real n) [1000, 20000] [1, 5 / 100])"

section \<open>CandidateLabeler\<close>

text \<open>
  \<^verbatim>\<open>label_df_with_cutoffs\<close> adds three columns of flags, each the list comprehension
  \<^verbatim>\<open>[1 if (np.isclose(x, cutoff) or (x > cutoff)) else 0 for x in column]\<close>.
\<close>

definition flag :: "npfloat \<Rightarrow> npfloat \<Rightarrow> nat" where
  "flag x cutoff = (if isclose x cutoff \<or> cutoff < x then 1 else 0)"

definition add_labels :: "npfloat \<Rightarrow> npfloat \<Rightarrow> npfloat \<Rightarrow> fitted \<Rightarrow> labeled" where
  "add_labels gs_cutoff rsg_cutoff rsg_y_cutoff r =
     fitted.extend r
       (labeled.fields (flag (G_S r) gs_cutoff) (flag (RS_G r) rsg_cutoff)
          (flag (RS_G_yhat r) rsg_y_cutoff))"

definition label_df_with_cutoffs ::
  "fitted list \<Rightarrow> npfloat \<Rightarrow> npfloat \<Rightarrow> npfloat \<Rightarrow> labeled list" where
  "label_df_with_cutoffs vcf_df gs_cutoff rsg_cutoff rsg_y_cutoff =
     map (add_labels gs_cutoff rsg_cutoff rsg_y_cutoff) vcf_df"

text \<open>
  The comparison of the specification: a statistic passes its cutoff when it is at least
  the cutoff, near-equal values passing as well.
\<close>

definition tolerant_ge :: "npfloat \<Rightarrow> npfloat \<Rightarrow> bool" where
  "tolerant_ge x cutoff = (cutoff \<le> x \<or> isclose x cutoff)"

text \<open>A smoothed record with given \<^verbatim>\<open>G_S\<close>, \<^verbatim>\<open>RS_G\<close> and \<^verbatim>\<open>RS_G_yhat\<close>, for examples.\<close>

definition example_fitted :: "real \<Rightarrow> real \<Rightarrow> real \<Rightarrow> fitted" where
  "example_fitted g rg rgy =
     \<lparr>chrom = ''1'', pos = 100, wt_ref = 10, wt_alt = 10, mu_ref = 5,
      mu_alt = 15, ratio = Fin (1 / 4), G_S = Fin g, RS_G = Fin rg,
      ratio_yhat = Fin (1 / 4), GS_yhat = Fin g, RS_G_yhat = Fin rgy\<rparr>"

section \<open>EmpiricalCutoffEstimator: the bootstrap\<close>

subsection \<open>Arrays in memory\<close>

text \<open>
  \<^verbatim>\<open>calculate_empirical_cutoffs\<close> receives the variant table by reference and hands
  arrays to a smoothing function that is a parameter of the engine and may write into the
  arrays it receives. Whether the table can change therefore depends on which arrays are
  shared, and the arrays are modelled as cells of a store: an address holds an array of
  64-bit integers or of double-precision numbers, and a new array gets the next free
  address.
\<close>

datatype array = IntArray "int list" | FloatArray "npfloat list"

type_synonym addr = nat

record heap =
  cells :: "addr \<Rightarrow> array option"
  nxt :: addr

definition alloc :: "array \<Rightarrow> heap \<Rightarrow> addr \<times> heap" where
  "alloc arr h = (nxt h, h\<lparr>cells := (cells h)(nxt h \<mapsto> arr), nxt := Suc (nxt h)\<rparr>)"

definition store :: "addr \<Rightarrow> array \<Rightarrow> heap \<Rightarrow> heap" where
  "store a arr h = h\<lparr>cells := (cells h)(a \<mapsto> arr)\<rparr>"

fun len :: "array \<Rightarrow> nat" where
  "len (IntArray xs) = length xs"
| "len (FloatArray ys) = length ys"

definition int_array :: "heap \<Rightarrow> addr \<Rightarrow> int list option" where
  "int_array h a = (case cells h a of Some (IntArray xs) \<Rightarrow> Some xs | _ \<Rightarrow> None)"

text \<open>
  The five columns of the variant table that the bootstrap reads, each the address of its
  array. \<^verbatim>\<open>vcf_df[['pos']].copy()\<close> makes a new table with a new array for each of the
  selected columns.
\<close>

record table =
  pos_at :: addr
  wt_ref_at :: addr
  wt_alt_at :: addr
  mu_ref_at :: addr
  mu_alt_at :: addr

definition copy_column :: "addr \<Rightarrow> heap \<Rightarrow> (addr \<times> heap) option" where
  "copy_column a h = (case cells h a of None \<Rightarrow> None | Some arr \<Rightarrow> Some (alloc arr h))"

definition read_table :: "heap \<Rightarrow> table \<Rightarrow> array option list" where
  "read_table h t =
     [cells h (pos_at t), cells h (wt_ref_at t), cells h (wt_alt_at t),
      cells h (mu_ref_at t), cells h (mu_alt_at t)]"

definition table_allocated :: "heap \<Rightarrow> table \<Rightarrow> bool" where
  "table_allocated h t =
     (pos_at t < nxt h \<and> wt_ref_at t < nxt h \<and> wt_alt_at t < nxt h
      \<and> mu_ref_at t < nxt h \<and> mu_alt_at t < nxt h)"

subsection \<open>Sampling\<close>

text \<open>
  \<^verbatim>\<open>DataFrame.sample(frac=frac)\<close> draws \<^verbatim>\<open>round(frac * len(df))\<close> rows without
  replacement: the first so many entries of a random permutation of the row numbers, taken
  into a new table. The permutation that is drawn is a parameter of the model. Python's
  \<^verbatim>\<open>round\<close> rounds a half to the even neighbour. A fraction above 1 raises a
  \<^verbatim>\<open>ValueError\<close>.
\<close>

definition py_round :: "real \<Rightarrow> int" where
  "py_round x =
     (let f = \<lfloor>x\<rfloor>; r = x - real_of_int f
      in if r < 1 / 2 then f else if 1 / 2 < r then f + 1 else if even f then f else f + 1)"

definition sample :: "real \<Rightarrow> nat list \<Rightarrow> 'a list \<Rightarrow> 'a list" where
  "sample fr permutation xs =
     map (\<lambda>i. xs ! i) (take (nat (py_round (fr * real (length xs)))) permutation)"

text \<open>The three permutations that one trial draws, one for each of its three tables.\<close>

record draws =
  pos_draw :: "nat list"
  wt_draw :: "nat list"
  mu_draw :: "nat list"

subsection \<open>One trial\<close>

text \<open>
  The smoothing function of a trial is called as
  \<^verbatim>\<open>smoothing_function(smRS_G, smPos, frac=loess_span)[:, 1]\<close> on two arrays that the
  trial holds. It returns the column of fitted values or raises, and it may have written
  into either array: the model's parameter gives, from the contents of the two arrays,
  the fitted column (\<^const>\<open>None\<close> when the call raises) and the contents of the two
  arrays after the call.
\<close>

type_synonym inplace_smoother =
  "npfloat list \<Rightarrow> int list \<Rightarrow> real \<Rightarrow> npfloat list option \<times> npfloat list \<times> int list"

datatype exception = Exception

type_synonym trial = "npfloat list \<times> npfloat list \<times> npfloat list \<times> npfloat list"

text \<open>
  \<^verbatim>\<open>_empirical_cutoff\<close>. The three samples are new tables; \<^verbatim>\<open>to_numpy()\<close> gives the
  array of a sampled column itself; the two features and their product are new arrays.
  The arrays of one trial have the same length, the three samples being drawn with one
  fraction from tables of one length. The function returns its four arrays as they are
  when it returns.
\<close>

definition empirical_cutoff ::
  "addr \<Rightarrow> addr \<times> addr \<Rightarrow> addr \<times> addr \<Rightarrow> real \<Rightarrow> draws \<Rightarrow> inplace_smoother \<Rightarrow> real
     \<Rightarrow> heap \<Rightarrow> (exception + trial) \<times> heap" where
  "empirical_cutoff vcf_df_position vcf_df_wt vcf_df_mu fr drawn smoothing_function loess_span h =
     (case (int_array h vcf_df_position,
            int_array h (fst vcf_df_wt), int_array h (snd vcf_df_wt),
            int_array h (fst vcf_df_mu), int_array h (snd vcf_df_mu)) of
        (Some pos_values, Some wt_ref_values, Some wt_alt_values, Some mu_ref_values,
         Some mu_alt_values) \<Rightarrow>
          if 1 < fr then (Inl Exception, h)
          else
            let (smPos, h1) = alloc (IntArray (sample fr (pos_draw drawn) pos_values)) h;
                (sm_wt_ref, h2) = alloc (IntArray (sample fr (wt_draw drawn) wt_ref_values)) h1;
                (sm_wt_alt, h3) = alloc (IntArray (sample fr (wt_draw drawn) wt_alt_values)) h2;
                (sm_mu_ref, h4) = alloc (IntArray (sample fr (mu_draw drawn) mu_ref_values)) h3;
                (sm_mu_alt, h5) = alloc (IntArray (sample fr (mu_draw drawn) mu_alt_values)) h4;
                g_values = g_statistic_array
                    (sample fr (wt_draw drawn) wt_ref_values) (sample fr (wt_draw drawn) wt_alt_values)
                    (sample fr (mu_draw drawn) mu_ref_values) (sample fr (mu_draw drawn) mu_alt_values);
                (smGstat, h6) = alloc (FloatArray g_values) h5;
                ratio_values = delta_snp_array
                    (sample fr (wt_draw drawn) wt_ref_values) (sample fr (wt_draw drawn) wt_alt_values)
                    (sample fr (mu_draw drawn) mu_ref_values) (sample fr (mu_draw drawn) mu_alt_values);
                (smRatio, h7) = alloc (FloatArray ratio_values) h6;
                (smRS_G, h8) = alloc (FloatArray (map2 (*) ratio_values g_values)) h7;
                (fit, rs_g_after, pos_after) =
                    smoothing_function (map2 (*) ratio_values g_values)
                      (sample fr (pos_draw drawn) pos_values) loess_span;
                h9 = store smRS_G (FloatArray rs_g_after) (store smPos (IntArray pos_after) h8)
            in (case fit of
                  None \<Rightarrow> (Inl Exception, h9)
                | Some smRS_G_y \<Rightarrow> (Inr (g_values, ratio_values, rs_g_after, smRS_G_y), h9))
      | _ \<Rightarrow> (Inl Exception, h))"

subsection \<open>Percentiles of the pooled trials\<close>

text \<open>
  \<^verbatim>\<open>np.percentile(a, q)\<close> on a list of arrays: the list becomes one array, which fails
  for arrays of different lengths, and the percentile is taken over all its elements. It
  is not-a-number if an element is; otherwise the elements are sorted and the value at the
  position \<open>(n - 1) * q / 100\<close> is interpolated linearly between its two neighbours. A
  percentile outside \<open>[0, 100]\<close> and an array without elements raise.
\<close>

fun float_key :: "npfloat \<Rightarrow> nat \<times> real" where
  "float_key NInf = (0, 0)"
| "float_key (Fin a) = (1, a)"
| "float_key PInf = (2, 0)"
| "float_key NaN = (3, 0)"

definition lerp :: "npfloat \<Rightarrow> npfloat \<Rightarrow> real \<Rightarrow> npfloat" where
  "lerp a b t = (if 1 / 2 \<le> t then b - (b - a) * Fin (1 - t) else a + (b - a) * Fin t)"

definition np_percentile :: "npfloat list list \<Rightarrow> real \<Rightarrow> exception + npfloat" where
  "np_percentile a q =
     (if 1 < length (remdups (map length a)) then Inl Exception
      else if q < 0 \<or> 100 < q then Inl Exception
      else if concat a = [] then Inl Exception
      else if list_ex (\<lambda>x. x = NaN) (concat a) then Inr NaN
      else
        let arr = sort_key float_key (concat a);
            n = length arr;
            virtual_index = real (n - 1) * (q / 100);
            previous_index = nat \<lfloor>virtual_index\<rfloor>;
            next_index = min (previous_index + 1) (n - 1);
            gamma = virtual_index - real previous_index
        in Inr (lerp (arr ! previous_index) (arr ! next_index) gamma))"

text \<open>
  The end of \<^verbatim>\<open>calculate_empirical_cutoffs\<close>: the four lists of per-trial arrays and
  their percentiles. A result of \<^verbatim>\<open>_empirical_cutoff\<close> is a tuple, never
  \<^verbatim>\<open>None\<close>, so the filter of the list comprehensions keeps every result.
\<close>

type_synonym cutoffs = "npfloat \<times> npfloat \<times> npfloat \<times> npfloat"

definition cutoffs_of_results :: "trial list \<Rightarrow> exception + cutoffs" where
  "cutoffs_of_results results =
     (let sm_g_stat_lst = map (\<lambda>(g, r, rs, rsy). g) results;
          sm_ratio_lst = map (\<lambda>(g, r, rs, rsy). r) results;
          sm_ratio_scaled_g_lst = map (\<lambda>(g, r, rs, rsy). rs) results;
          sm_ratio_scaled_g_y_lst = map (\<lambda>(g, r, rs, rsy). rsy) results
      in case np_percentile sm_g_stat_lst 95 of
           Inl e \<Rightarrow> Inl e
         | Inr gs_cutoff \<Rightarrow>
             (case np_percentile sm_ratio_lst 95 of
                Inl e \<Rightarrow> Inl e
              | Inr rs_cutoff \<Rightarrow>
                  (case np_percentile sm_ratio_scaled_g_lst 95 of
                     Inl e \<Rightarrow> Inl e
                   | Inr rsg_cutoff \<Rightarrow>
                       (case np_percentile sm_ratio_scaled_g_y_lst (9999 / 100) of
                          Inl e \<Rightarrow> Inl e
                        | Inr rsg_y_cutoff \<Rightarrow>
                            Inr (gs_cutoff, rs_cutoff, rsg_cutoff, rsg_y_cutoff)))))"

subsection \<open>The bootstrap\<close>

text \<open>
  \<^verbatim>\<open>Pool.starmap\<close> runs the trials in worker processes and returns their results in the
  order of the arguments; an exception of a trial is raised again by \<^verbatim>\<open>starmap\<close>
  itself. A worker computes on its own copy of the memory of the engine, so what a trial
  writes is gone when it ends and every trial starts from the memory as it is when the
  pool is made.
\<close>

fun starmap :: "('a \<Rightarrow> exception + 'b) \<Rightarrow> 'a list \<Rightarrow> exception + 'b list" where
  "starmap f [] = Inr []"
| "starmap f (x # xs) =
     (case f x of
        Inl e \<Rightarrow> Inl e
      | Inr y \<Rightarrow> (case starmap f xs of Inl e \<Rightarrow> Inl e | Inr ys \<Rightarrow> Inr (y # ys)))"

text \<open>The three \<^verbatim>\<open>.copy()\<close> statements that open \<^verbatim>\<open>calculate_empirical_cutoffs\<close>.\<close>

definition copy_columns ::
  "table \<Rightarrow> heap \<Rightarrow> (addr \<times> (addr \<times> addr) \<times> (addr \<times> addr) \<times> heap) option" where
  "copy_columns vcf_df h =
     (case copy_column (pos_at vcf_df) h of
        None \<Rightarrow> None
      | Some (pos_copy, h1) \<Rightarrow>
          (case copy_column (wt_ref_at vcf_df) h1 of
             None \<Rightarrow> None
           | Some (wt_ref_copy, h2) \<Rightarrow>
               (case copy_column (wt_alt_at vcf_df) h2 of
                  None \<Rightarrow> None
                | Some (wt_alt_copy, h3) \<Rightarrow>
                    (case copy_column (mu_ref_at vcf_df) h3 of
                       None \<Rightarrow> None
                     | Some (mu_ref_copy, h4) \<Rightarrow>
                         (case copy_column (mu_alt_at vcf_df) h4 of
                            None \<Rightarrow> None
                          | Some (mu_alt_copy, h5) \<Rightarrow>
                              Some (pos_copy, (wt_ref_copy, wt_alt_copy), (mu_ref_copy, mu_alt_copy), h5))))))"

text \<open>
  \<^verbatim>\<open>calculate_empirical_cutoffs\<close>. The random draws of the trials are the parameter
  \<open>rng\<close>, the draws of trial \<open>i\<close> being \<open>rng i\<close>. Every exception inside the
  \<^verbatim>\<open>try\<close> block ends in \<^verbatim>\<open>log.fail\<close>, which ends the process; the statement
  \<^verbatim>\<open>return None, None, None\<close> after it is never reached.
\<close>

definition calculate_empirical_cutoffs ::
  "table \<Rightarrow> inplace_smoother \<Rightarrow> real \<Rightarrow> nat \<Rightarrow> (nat \<Rightarrow> draws) \<Rightarrow> heap
     \<Rightarrow> (exit + cutoffs) \<times> heap" where
  "calculate_empirical_cutoffs vcf_df smoothing_function loess_span shuffle_iterations rng h =
     (case copy_columns vcf_df h of
        None \<Rightarrow> (Inl SystemExit, h)
      | Some (vcf_df_position, vcf_df_wt, vcf_df_mu, h') \<Rightarrow>
          (case cells h' vcf_df_position of
             None \<Rightarrow> (Inl SystemExit, h')
           | Some column \<Rightarrow>
               let n = len column;
                   fr = subsample_frac n
               in case starmap
                      (\<lambda>i. fst (empirical_cutoff vcf_df_position vcf_df_wt vcf_df_mu fr (rng i)
                                   smoothing_function loess_span h'))
                      [0..<shuffle_iterations] of
                    Inl e \<Rightarrow> (Inl SystemExit, h')
                  | Inr results \<Rightarrow>
                      (case cutoffs_of_results results of
                         Inl e \<Rightarrow> (Inl SystemExit, h')
                       | Inr c \<Rightarrow> (Inr c, h'))))"

text \<open>
  A table of four variants in memory and a smoothing function that overwrites both of its
  arrays with zeros, for examples.
\<close>

definition example_heap :: heap where
  "example_heap =
     \<lparr>cells = [0 \<mapsto> IntArray [10, 20, 40, 70], 1 \<mapsto> IntArray [10, 8, 3, 12],
               2 \<mapsto> IntArray [10, 12, 9, 4], 3 \<mapsto> IntArray [5, 9, 11, 6],
               4 \<mapsto> IntArray [15, 7, 2, 10]],
      nxt = 5\<rparr>"

definition example_table :: table where
  "example_table = \<lparr>pos_at = 0, wt_ref_at = 1, wt_alt_at = 2, mu_ref_at = 3, mu_alt_at = 4\<rparr>"

definition overwriting_smoother :: inplace_smoother where
  "overwriting_smoother ys xs fr = (Some ys, map (\<lambda>y. Fin 0) ys, map (\<lambda>x. 0) xs)"

definition failing_smoother :: inplace_smoother where
  "failing_smoother ys xs fr = (None, ys, xs)"

definition example_rng :: "nat \<Rightarrow> draws" where
  "example_rng i = \<lparr>pos_draw = [0, 1, 2, 3], wt_draw = [3, 2, 1, 0], mu_draw = [1, 0, 3, 2]\<rparr>"

text \<open>The results of two trials, for examples.\<close>

definition example_trial_1 :: trial where
  "example_trial_1 =
     ([Fin 1, Fin 4], [Fin (1 / 2), Fin (- (1 / 2))], [Fin (1 / 2), Fin (- 2)], [Fin 0, Fin 1])"

definition example_trial_2 :: trial where
  "example_trial_2 =
     ([Fin 3, Fin 2], [Fin 0, Fin (1 / 4)], [Fin 0, Fin (1 / 2)], [Fin 2, Fin 3])"

section \<open>FeatureProduction: theorems\<close>

subsection \<open>64-bit integers\<close>

lemma int64_id:
  assumes "- (2 ^ 63) \<le> x" "x < 2 ^ 63"
  shows "int64 x = x"
proof -
  have "0 \<le> x + 2 ^ 63" "x + 2 ^ 63 < 2 ^ 64" using assms by simp_all
  then have "(x + 2 ^ 63) mod 2 ^ 64 = x + 2 ^ 63" by (rule mod_pos_pos_trivial)
  then show ?thesis by (simp add: int64_def)
qed


lemma zip4_nth:
  assumes "i < length ws" "length xs = length ws" "length ys = length ws" "length zs = length ws"
  shows "zip4 ws xs ys zs ! i = (ws ! i, xs ! i, ys ! i, zs ! i)"
  using assms by simp

lemma delta_snp_array_nth:
  assumes "i < length wtr" "length wta = length wtr" "length mur = length wtr"
    "length mua = length wtr"
  shows "delta_snp_array wtr wta mur mua ! i = delta_snp (wtr ! i) (wta ! i) (mur ! i) (mua ! i)"
  using assms by (simp add: delta_snp_array_def)


lemma delta_snp_in_range:
  assumes "0 \<le> a" "0 \<le> b" "0 \<le> c" "0 \<le> d" "a + b < 2 ^ 63" "c + d < 2 ^ 63"
  shows "delta_snp a b c d
       = Fin (real_of_int a) / Fin (real_of_int a + real_of_int b)
         - Fin (real_of_int c) / Fin (real_of_int c + real_of_int d)"
proof -
  have "int64 (a + b) = a + b" "int64 (c + d) = c + d"
    using assms by (simp_all add: int64_id)
  then show ?thesis by (simp add: delta_snp_def to_float_def)
qed

lemma ratio_fin:
  fixes a b c d :: real
  assumes "0 < a + b" "0 < c + d"
  shows "Fin a / Fin (a + b) - Fin c / Fin (c + d) = Fin (a / (a + b) - c / (c + d))"
  using assms by (simp add: minus_npfloat_def)

lemma share_bounds:
  fixes a b :: real
  assumes "0 \<le> a" "0 \<le> b" "0 < a + b"
  shows "0 \<le> a / (a + b)" "a / (a + b) \<le> 1"
  using assms by (simp_all add: divide_le_eq)

lemma ratio_nan:
  fixes a b c d :: real
  assumes "0 \<le> a" "0 \<le> b" "0 \<le> c" "0 \<le> d" "a + b = 0 \<or> c + d = 0"
  shows "Fin a / Fin (a + b) - Fin c / Fin (c + d) = NaN"
proof -
  from assms(5) show ?thesis
  proof
    assume "a + b = 0"
    with assms have "a = 0" "b = 0" by linarith+
    then show ?thesis by (simp add: minus_npfloat_def)
  next
    assume "c + d = 0"
    with assms have "c = 0" "d = 0" by linarith+
    then show ?thesis
      by (cases "a + b = 0") (auto simp add: minus_npfloat_def)
  qed
qed

text \<open>
  C5. At every record with non-negative read depths whose two bulk totals are below \<open>2^63\<close>,
  the ratio is \<^verbatim>\<open>wt_ref/(wt_ref+wt_alt) - mu_ref/(mu_ref+mu_alt)\<close> in the arithmetic of
  the arrays, with no guard: where the total of one bulk is zero the ratio is not-a-number,
  and where both totals are positive it is the real number of that formula and lies between
  -1 and 1.
\<close>

theorem delta_snp_array_ratio:
  assumes "i < length wtr" "length wta = length wtr" "length mur = length wtr"
    "length mua = length wtr"
    and "0 \<le> wtr ! i" "0 \<le> wta ! i" "0 \<le> mur ! i" "0 \<le> mua ! i"
    and "wtr ! i + wta ! i < 2 ^ 63" "mur ! i + mua ! i < 2 ^ 63"
  shows "delta_snp_array wtr wta mur mua ! i
           = to_float (wtr ! i) / to_float (wtr ! i + wta ! i)
             - to_float (mur ! i) / to_float (mur ! i + mua ! i)
       \<and> (if 0 < wtr ! i + wta ! i \<and> 0 < mur ! i + mua ! i
          then delta_snp_array wtr wta mur mua ! i
                 = Fin (real_of_int (wtr ! i) / real_of_int (wtr ! i + wta ! i)
                        - real_of_int (mur ! i) / real_of_int (mur ! i + mua ! i))
               \<and> - 1 \<le> real_of_int (wtr ! i) / real_of_int (wtr ! i + wta ! i)
                        - real_of_int (mur ! i) / real_of_int (mur ! i + mua ! i)
               \<and> real_of_int (wtr ! i) / real_of_int (wtr ! i + wta ! i)
                        - real_of_int (mur ! i) / real_of_int (mur ! i + mua ! i) \<le> 1
          else delta_snp_array wtr wta mur mua ! i = NaN)"
proof -
  let ?a = "real_of_int (wtr ! i)" and ?b = "real_of_int (wta ! i)"
  let ?c = "real_of_int (mur ! i)" and ?d = "real_of_int (mua ! i)"
  have nn: "0 \<le> ?a" "0 \<le> ?b" "0 \<le> ?c" "0 \<le> ?d" using assms(5-8) by simp_all
  have nth: "delta_snp_array wtr wta mur mua ! i
      = Fin ?a / Fin (?a + ?b) - Fin ?c / Fin (?c + ?d)"
    using delta_snp_array_nth[OF assms(1-4)] delta_snp_in_range[OF assms(5-10)] by simp
  have expr: "Fin ?a / Fin (?a + ?b) - Fin ?c / Fin (?c + ?d)
      = to_float (wtr ! i) / to_float (wtr ! i + wta ! i)
        - to_float (mur ! i) / to_float (mur ! i + mua ! i)"
    by (simp add: to_float_def)
  have sums: "real_of_int (wtr ! i + wta ! i) = ?a + ?b" "real_of_int (mur ! i + mua ! i) = ?c + ?d"
    by simp_all
  have pos: "(0 < wtr ! i + wta ! i \<and> 0 < mur ! i + mua ! i) = (0 < ?a + ?b \<and> 0 < ?c + ?d)"
    by (metis of_int_0_less_iff sums)
  have rest: "if 0 < ?a + ?b \<and> 0 < ?c + ?d
      then Fin ?a / Fin (?a + ?b) - Fin ?c / Fin (?c + ?d) = Fin (?a / (?a + ?b) - ?c / (?c + ?d))
         \<and> - 1 \<le> ?a / (?a + ?b) - ?c / (?c + ?d) \<and> ?a / (?a + ?b) - ?c / (?c + ?d) \<le> 1
      else Fin ?a / Fin (?a + ?b) - Fin ?c / Fin (?c + ?d) = NaN"
  proof (cases "0 < ?a + ?b \<and> 0 < ?c + ?d")
    case True
    then have p: "0 < ?a + ?b" "0 < ?c + ?d" by simp_all
    have "0 \<le> ?a / (?a + ?b)" "?a / (?a + ?b) \<le> 1" "0 \<le> ?c / (?c + ?d)"
        "?c / (?c + ?d) \<le> 1"
      using share_bounds[OF nn(1,2) p(1)] share_bounds[OF nn(3,4) p(2)] by simp_all
    then have "- 1 \<le> ?a / (?a + ?b) - ?c / (?c + ?d)" "?a / (?a + ?b) - ?c / (?c + ?d) \<le> 1"
      by linarith+
    with True ratio_fin[OF p] show ?thesis by simp
  next
    case False
    with nn have "?a + ?b = 0 \<or> ?c + ?d = 0" by linarith
    then have n: "Fin ?a / Fin (?a + ?b) - Fin ?c / Fin (?c + ?d) = NaN"
      by (rule ratio_nan[OF nn])
    show ?thesis by (simp only: False if_False n)
  qed
  show ?thesis unfolding nth pos sums expr[symmetric] by (rule conjI[OF refl rest])
qed

theorem delta_snp_array_ratio_witness:
  "delta_snp_array [10, 0] [10, 0] [5, 5] [15, 15] ! 0 = Fin (1 / 4)
   \<and> delta_snp_array [10, 0] [10, 0] [5, 5] [15, 15] ! 1 = NaN"
  using delta_snp_array_ratio [of 0 "[10, 0]" "[10, 0]" "[5, 5]" "[15, 15]"]
    delta_snp_array_ratio [of 1 "[10, 0]" "[10, 0]" "[5, 5]" "[15, 15]"]
  by (simp add: minus_npfloat_def to_float_def)

text \<open>
  Without the bound on the totals the ratio leaves the interval: the sum of two read depths
  of \<open>2^63 - 1\<close> wraps around to -2, and the ratio of that record is below -1 although both
  bulk totals are positive.
\<close>

theorem delta_snp_array_counterexample:
  "delta_snp_array [9223372036854775807] [9223372036854775807] [1] [1] ! 0 < Fin (- 1)"
  by (simp add: delta_snp_array_def delta_snp_def to_float_def int64_def minus_npfloat_def)

subsection \<open>The G-statistic\<close>














text \<open>
  In exact arithmetic the statistic of the specification is never negative on non-negative
  counts: \<open>ln x \<le> x - 1\<close> bounds each term from below, and the four expected counts
  add up to the grand total.
\<close>

lemma llr_term_lower:
  assumes "0 \<le> x" "0 < e"
  shows "2 * (x - e) \<le> llr_term x e"
proof (cases "x = 0")
  case True
  with assms show ?thesis by (simp add: llr_term_def)
next
  case False
  with assms have x: "0 < x" by simp
  then have pos: "0 < x / e" "0 < e / x" using assms by simp_all
  have "ln (e / x) \<le> e / x - 1" using pos(2) by (rule ln_le_minus_one)
  moreover have "ln (e / x) = - ln (x / e)" using x assms(2) by (simp add: ln_div)
  ultimately have "1 - e / x \<le> ln (x / e)" by simp
  then have "x * (1 - e / x) \<le> x * ln (x / e)"
    using x by (simp add: mult_le_cancel_left_pos del: ln_div)
  moreover have "x * (1 - e / x) = x - e" using x by (simp add: field_simps)
  ultimately have "x - e \<le> x * ln (x / e)" by simp
  then show ?thesis using pos(1) by (simp add: llr_term_def not_le)
qed

lemma expected_sum:
  fixes a b c d :: real
  assumes "a + b + c + d \<noteq> 0"
  shows "(a + c) * (a + b) / (a + b + c + d) + (a + c) * (c + d) / (a + b + c + d)
       + (b + d) * (a + b) / (a + b + c + d) + (b + d) * (c + d) / (a + b + c + d)
       = a + b + c + d"
proof -
  define N where "N = a + b + c + d"
  have "(a + c) * (a + b) / N + (a + c) * (c + d) / N + (b + d) * (a + b) / N
        + (b + d) * (c + d) / N
      = ((a + c) * (a + b) + (a + c) * (c + d) + (b + d) * (a + b) + (b + d) * (c + d)) / N"
    by (simp add: add_divide_distrib)
  also have "(a + c) * (a + b) + (a + c) * (c + d) + (b + d) * (a + b) + (b + d) * (c + d)
      = N * N"
    unfolding N_def by (simp add: algebra_simps)
  also have "N * N / N = N" using assms by (simp add: N_def)
  finally show ?thesis unfolding N_def .
qed

lemma g_statistic_spec_nonneg:
  assumes "0 \<le> a" "0 \<le> b" "0 \<le> c" "0 \<le> d"
  shows "0 \<le> g_statistic_spec a b c d"
proof -
  define N where "N = a + b + c + d"
  define E1 where "E1 = (a + c) * (a + b) / N"
  define E2 where "E2 = (a + c) * (c + d) / N"
  define E3 where "E3 = (b + d) * (a + b) / N"
  define E4 where "E4 = (b + d) * (c + d) / N"
  have spec: "g_statistic_spec a b c d =
      (if N = 0 then 0 else if E1 * E2 * E3 * E4 = 0 then 0
       else llr_term a E1 + llr_term c E2 + llr_term b E3 + llr_term d E4)"
    unfolding g_statistic_spec_def Let_def N_def E1_def E2_def E3_def E4_def ..
  show ?thesis
  proof (cases "N = 0 \<or> E1 * E2 * E3 * E4 = 0")
    case True
    then show ?thesis unfolding spec by auto
  next
    case False
    then have N: "N \<noteq> 0" and ne: "E1 \<noteq> 0" "E2 \<noteq> 0" "E3 \<noteq> 0" "E4 \<noteq> 0" by auto
    have "0 \<le> N" using assms by (simp add: N_def)
    then have ge: "0 \<le> E1" "0 \<le> E2" "0 \<le> E3" "0 \<le> E4"
      using assms by (simp_all add: E1_def E2_def E3_def E4_def)
    with ne have pos: "0 < E1" "0 < E2" "0 < E3" "0 < E4" by simp_all
    have sum: "E1 + E2 + E3 + E4 = a + b + c + d"
      using N unfolding E1_def E2_def E3_def E4_def N_def by (rule expected_sum)
    have "2 * (a - E1) + 2 * (c - E2) + 2 * (b - E3) + 2 * (d - E4)
        \<le> llr_term a E1 + llr_term c E2 + llr_term b E3 + llr_term d E4"
      using llr_term_lower[OF assms(1) pos(1)] llr_term_lower[OF assms(3) pos(2)]
        llr_term_lower[OF assms(2) pos(3)] llr_term_lower[OF assms(4) pos(4)]
      by linarith
    moreover have "2 * (a - E1) + 2 * (c - E2) + 2 * (b - E3) + 2 * (d - E4) = 0"
      using sum by simp
    ultimately show ?thesis using False unfolding spec by simp
  qed
qed

section \<open>Smoothing of one chromosome: theorems\<close>

subsection \<open>Slices\<close>

lemma slice_index_nonneg: "0 \<le> i \<Longrightarrow> slice_index n i = min n (nat i)"
  by (auto simp add: slice_index_def)

lemma slice_index_neg: "i < 0 \<Longrightarrow> slice_index n i = n - nat (- i)"
  by (auto simp add: slice_index_def)

lemma py_slice_front_eq:
  assumes "1 \<le> eb"
  shows "py_slice xs (Some 1) (Some eb) = take (min (length xs) (nat eb) - 1) (drop 1 xs)"
proof -
  have "slice_index (length xs) 1 = min (length xs) 1" by (simp add: slice_index_nonneg)
  moreover have "slice_index (length xs) eb = min (length xs) (nat eb)"
    using assms by (simp add: slice_index_nonneg)
  ultimately have "py_slice xs (Some 1) (Some eb)
      = take (min (length xs) (nat eb) - min (length xs) 1) (drop (min (length xs) 1) xs)"
    by (simp add: py_slice_def Let_def)
  then show ?thesis by (cases xs) simp_all
qed

lemma py_slice_back_eq:
  assumes "1 \<le> eb"
  shows "py_slice xs (Some (- eb)) (Some (- 1))
       = take (min (length xs) (nat eb) - 1) (drop (length xs - nat eb) xs)"
proof -
  have "slice_index (length xs) (- 1) = length xs - 1" by (simp add: slice_index_neg)
  moreover have "slice_index (length xs) (- eb) = length xs - nat eb"
    using assms by (simp add: slice_index_neg)
  ultimately have "py_slice xs (Some (- eb)) (Some (- 1))
      = take (length xs - 1 - (length xs - nat eb)) (drop (length xs - nat eb) xs)"
    by (simp add: py_slice_def Let_def)
  moreover have "length xs - 1 - (length xs - nat eb) = min (length xs) (nat eb) - 1"
    using assms by (simp add: min_def)
  ultimately show ?thesis by simp
qed


lemma take_drop_rev:
  assumes "j + k \<le> length xs"
  shows "take k (drop j (rev xs)) = rev (take k (drop (length xs - j - k) xs))"
proof -
  have "drop j (rev xs) = rev (take (length xs - j) xs)"
    using assms by (simp add: rev_take)
  then have "take k (drop j (rev xs)) = rev (drop (length xs - j - k) (take (length xs - j) xs))"
    using assms by (simp add: rev_drop)
  also have "drop (length xs - j - k) (take (length xs - j) xs) = take k (drop (length xs - j - k) xs)"
    using assms by (simp add: drop_take)
  finally show ?thesis .
qed

lemma py_slice_rev_front:
  assumes "1 \<le> eb"
  shows "py_slice (rev xs) (Some (- eb)) (Some (- 1)) = rev (py_slice xs (Some 1) (Some eb))"
proof (cases "xs = []")
  case True
  then show ?thesis by (simp add: py_slice_def)
next
  case False
  define n where "n = length xs"
  define k where "k = min n (nat eb) - 1"
  have n: "1 \<le> n" using False by (cases xs) (simp_all add: n_def)
  have e: "1 \<le> nat eb" using assms by simp
  have jk: "(n - nat eb) + k \<le> length xs" using n e by (auto simp add: k_def n_def min_def)
  have "py_slice (rev xs) (Some (- eb)) (Some (- 1)) = take k (drop (n - nat eb) (rev xs))"
    using py_slice_back_eq[OF assms, of "rev xs"] by (simp add: k_def n_def)
  also have "\<dots> = rev (take k (drop (length xs - (n - nat eb) - k) xs))"
    using jk by (rule take_drop_rev)
  also have "length xs - (n - nat eb) - k = 1"
    using n e by (auto simp add: k_def n_def min_def)
  finally show ?thesis using py_slice_front_eq[OF assms, of xs] by (simp add: k_def n_def)
qed

lemma py_slice_rev_back:
  assumes "1 \<le> eb"
  shows "py_slice (rev xs) (Some 1) (Some eb) = rev (py_slice xs (Some (- eb)) (Some (- 1)))"
proof (cases "xs = []")
  case True
  then show ?thesis by (simp add: py_slice_def)
next
  case False
  define n where "n = length xs"
  define k where "k = min n (nat eb) - 1"
  have n: "1 \<le> n" using False by (cases xs) (simp_all add: n_def)
  have e: "1 \<le> nat eb" using assms by simp
  have jk: "1 + k \<le> length xs" using n e by (auto simp add: k_def n_def min_def)
  have "py_slice (rev xs) (Some 1) (Some eb) = take k (drop 1 (rev xs))"
    using py_slice_front_eq[OF assms, of "rev xs"] by (simp add: k_def n_def)
  also have "\<dots> = rev (take k (drop (length xs - 1 - k) xs))"
    using jk by (rule take_drop_rev)
  also have "length xs - 1 - k = n - nat eb"
    using n e by (auto simp add: k_def n_def min_def)
  finally show ?thesis using py_slice_back_eq[OF assms, of xs] by (simp add: k_def n_def)
qed

lemma length_py_slice_front:
  assumes "1 \<le> eb" "eb \<le> int (length xs)"
  shows "length (py_slice xs (Some 1) (Some eb)) = nat eb - 1"
proof -
  have "nat eb \<le> length xs" "1 \<le> nat eb" using assms by linarith+
  then show ?thesis by (simp add: py_slice_front_eq[OF assms(1)])
qed

lemma length_py_slice_back:
  assumes "1 \<le> eb" "eb \<le> int (length xs)"
  shows "length (py_slice xs (Some (- eb)) (Some (- 1))) = nat eb - 1"
proof -
  have "nat eb \<le> length xs" "1 \<le> nat eb" using assms by linarith+
  then show ?thesis by (simp add: py_slice_back_eq[OF assms(1)])
qed

subsection \<open>The mirrored ends and the pseudo positions\<close>

lemma py_slice_map: "py_slice (map f xs) a b = map f (py_slice xs a b)"
  by (simp add: py_slice_def Let_def take_map drop_map)

lemma set_py_slice: "set (py_slice xs a b) \<subseteq> set xs"
proof -
  have "set (take k (drop j xs)) \<subseteq> set xs" for k j
    using set_take_subset[of k "drop j xs"] set_drop_subset[of j xs] by blast
  then show ?thesis by (simp add: py_slice_def Let_def)
qed

lemma deltas_mirrored_ends_eq:
  assumes "1 \<le> eb"
  shows "deltas_mirrored_ends eb positions
       = rev (py_slice (deltas_of positions) (Some 1) (Some eb)) @ deltas_of positions
         @ rev (py_slice (deltas_of positions) (Some (- eb)) (Some (- 1)))"
  by (simp add: deltas_mirrored_ends_def Let_def py_slice_rev_front[OF assms]
      py_slice_rev_back[OF assms])

lemma df_chr_padded_eq:
  assumes "1 \<le> eb"
  shows "df_chr_padded eb df
       = rev (py_slice df (Some 1) (Some eb)) @ df @ rev (py_slice df (Some (- eb)) (Some (- 1)))"
  by (simp add: df_chr_padded_def Let_def py_slice_rev_front[OF assms]
      py_slice_rev_back[OF assms])

lemma length_deltas_of: "length (deltas_of positions) = length positions"
  by (simp add: deltas_of_def)

lemma length_df_chr_padded:
  assumes "1 \<le> eb" "eb \<le> int (length df)"
  shows "length (df_chr_padded eb df) = length df + 2 * (nat eb - 1)"
  by (simp add: df_chr_padded_eq[OF assms(1)] length_py_slice_front[OF assms]
      length_py_slice_back[OF assms])

lemma length_deltas_mirrored_ends:
  assumes "1 \<le> eb" "eb \<le> int (length positions)"
  shows "length (deltas_mirrored_ends eb positions) = length positions + 2 * (nat eb - 1)"
proof -
  have "eb \<le> int (length (deltas_of positions))" using assms(2) by (simp add: length_deltas_of)
  then show ?thesis
    by (simp add: deltas_mirrored_ends_eq[OF assms(1)] length_py_slice_front[OF assms(1)]
      length_py_slice_back[OF assms(1)] length_deltas_of)
qed

lemma psuedo_pos_of_snoc:
  "psuedo_pos_of (ds @ [d]) = psuedo_pos_step (psuedo_pos_of ds) (length ds, d)"
  by (simp add: psuedo_pos_of_def enumerate_append_eq)

lemma psuedo_pos_of_Nil: "psuedo_pos_of [] = []"
  by (simp add: psuedo_pos_of_def)

lemma length_psuedo_pos_of: "length (psuedo_pos_of ds) = length ds"
  by (induction ds rule: rev_induct)
     (simp_all add: psuedo_pos_of_Nil psuedo_pos_of_snoc psuedo_pos_step_def)

lemma int64_add_right: "int64 (p + int64 s) = int64 (p + s)"
proof -
  have "(p + ((s + 2 ^ 63) mod 2 ^ 64 - 2 ^ 63) + 2 ^ 63) mod 2 ^ 64
      = (p + (s + 2 ^ 63) mod 2 ^ 64) mod (2 ^ 64 :: int)"
    by simp
  also have "\<dots> = (p + (s + 2 ^ 63)) mod 2 ^ 64" by (simp only: mod_add_right_eq)
  also have "p + (s + 2 ^ 63) = p + s + 2 ^ 63" by simp
  finally show ?thesis by (simp only: int64_def)
qed

lemma int64_zero: "int64 0 = 0"
  by (simp add: int64_def)

lemma psuedo_pos_of_cumsum:
  "psuedo_pos_of ds = map (\<lambda>k. int64 (sum_list (take k (tl ds)))) [0..<length ds]"
proof (induction ds rule: rev_induct)
  case Nil
  then show ?case by (simp add: psuedo_pos_of_Nil)
next
  case (snoc d ds)
  show ?case
  proof (cases "ds = []")
    case True
    have "psuedo_pos_of ([] @ [d]) = [0]"
      unfolding psuedo_pos_of_snoc by (simp add: psuedo_pos_of_Nil psuedo_pos_step_def)
    then show ?thesis using True by (simp add: int64_zero)
  next
    case False
    then have len: "0 < length ds" by simp
    have "length ds - Suc 0 < length ds" using len by simp
    then have "psuedo_pos_of ds ! (length ds - 1)
        = int64 (sum_list (take (length ds - 1) (tl ds)))"
      by (simp add: snoc.IH)
    then have last: "psuedo_pos_of ds ! (length ds - 1) = int64 (sum_list (tl ds))"
      by simp
    have front: "map (\<lambda>k. int64 (sum_list (take k (tl (ds @ [d]))))) [0..<length ds]
        = map (\<lambda>k. int64 (sum_list (take k (tl ds)))) [0..<length ds]"
      using False by (intro map_cong refl) (auto simp add: Suc_le_eq)
    have "psuedo_pos_of (ds @ [d]) = psuedo_pos_of ds @ [int64 (d + int64 (sum_list (tl ds)))]"
      using len last by (simp add: psuedo_pos_of_snoc psuedo_pos_step_def)
    also have "\<dots> = psuedo_pos_of ds @ [int64 (sum_list (tl ds @ [d]))]"
      by (simp add: int64_add_right add.commute)
    also have "\<dots> = map (\<lambda>k. int64 (sum_list (take k (tl (ds @ [d]))))) [0..<length (ds @ [d])]"
    proof -
      have "length ds - (length ds - Suc 0) = Suc 0" using len by arith
      then show ?thesis using False by (simp add: snoc.IH front)
    qed
    finally show ?thesis .
  qed
qed

lemma sum_list_take_mono:
  fixes xs :: "int list"
  assumes "\<forall>x\<in>set xs. 0 \<le> x" "i \<le> j"
  shows "sum_list (take i xs) \<le> sum_list (take j xs)"
proof -
  have "take j xs = take i xs @ take (j - i) (drop i xs)"
    using assms(2) by (metis le_add_diff_inverse take_add)
  moreover have "0 \<le> sum_list (take (j - i) (drop i xs))"
    using assms(1) by (intro sum_list_nonneg) (meson in_set_dropD in_set_takeD)
  ultimately show ?thesis by simp
qed

lemma psuedo_pos_of_in_range:
  assumes "\<forall>x\<in>set ds. 0 \<le> x" "sum_list (tl ds) < 2 ^ 63"
  shows "psuedo_pos_of ds = map (\<lambda>k. sum_list (take k (tl ds))) [0..<length ds]"
proof -
  have nn: "\<forall>x\<in>set (tl ds). 0 \<le> x" using assms(1) by (cases ds) simp_all
  have "int64 (sum_list (take k (tl ds))) = sum_list (take k (tl ds))" for k
  proof (rule int64_id)
    have "0 \<le> sum_list (take k (tl ds))"
      using nn by (intro sum_list_nonneg) (meson in_set_takeD)
    then show "- (2 ^ 63) \<le> sum_list (take k (tl ds))" by simp
    have "sum_list (take k (tl ds)) \<le> sum_list (take (max k (length (tl ds))) (tl ds))"
      using nn by (rule sum_list_take_mono) simp
    then show "sum_list (take k (tl ds)) < 2 ^ 63" using assms(2) by simp
  qed
  then show ?thesis by (simp add: psuedo_pos_of_cumsum)
qed

lemma sorted_psuedo_pos_of:
  assumes "\<forall>x\<in>set ds. 0 \<le> x" "sum_list (tl ds) < 2 ^ 63"
  shows "sorted (psuedo_pos_of ds)"
proof -
  have nn: "\<forall>x\<in>set (tl ds). 0 \<le> x" using assms(1) by (cases ds) simp_all
  show ?thesis
    unfolding psuedo_pos_of_in_range[OF assms]
    by (auto simp add: sorted_iff_nth_mono intro: sum_list_take_mono[OF nn])
qed

lemma deltas_of_nonneg:
  assumes "sorted positions" "\<forall>p\<in>set positions. 0 \<le> p \<and> p < 2 ^ 63"
  shows "\<forall>x\<in>set (deltas_of positions). 0 \<le> x"
proof -
  have "0 \<le> (if 0 < i then int64 (positions ! i - positions ! (i - 1)) else positions ! i)"
    if "i < length positions" for i
  proof (cases "0 < i")
    case True
    then have le: "positions ! (i - 1) \<le> positions ! i"
      using assms(1) that by (simp add: sorted_iff_nth_mono)
    have "0 \<le> positions ! (i - 1)" "positions ! i < 2 ^ 63"
      using assms(2) that by simp_all
    with le have "int64 (positions ! i - positions ! (i - 1)) = positions ! i - positions ! (i - 1)"
      by (intro int64_id) simp_all
    with True le show ?thesis by simp
  next
    case False
    then show ?thesis using assms(2) that by simp
  qed
  then have "\<forall>i\<in>set [0..<length positions].
      0 \<le> (if 0 < i then int64 (positions ! i - positions ! (i - 1)) else positions ! i)"
    by simp
  then show ?thesis unfolding deltas_of_def set_map by blast
qed

lemma deltas_mirrored_ends_nonneg:
  assumes "sorted positions" "\<forall>p\<in>set positions. 0 \<le> p \<and> p < 2 ^ 63"
  shows "\<forall>x\<in>set (deltas_mirrored_ends eb positions). 0 \<le> x"
proof -
  have "set (deltas_mirrored_ends eb positions) \<subseteq> set (deltas_of positions)"
    using set_py_slice[of "rev (deltas_of positions)"]
    by (auto simp add: deltas_mirrored_ends_def Let_def)
  then show ?thesis using deltas_of_nonneg[OF assms] by blast
qed

subsection \<open>The example facet\<close>

lemma example_positions: "map pos example_facet = [10, 20, 40, 70, 110, 160, 220]"
  by (simp add: example_facet_def example_variant_def)

lemma int64_example:
  "int64 10 = 10" "int64 20 = 20" "int64 30 = 30" "int64 40 = 40" "int64 50 = 50" "int64 60 = 60"
  by (simp_all add: int64_def)

lemma example_deltas: "deltas_of [10, 20, 40, 70, 110, 160, 220] = [10, 10, 20, 30, 40, 50, 60]"
  by (simp add: deltas_of_def upt_rec int64_example)

lemma example_deltas_mirrored_ends:
  "deltas_mirrored_ends 3 [10, 20, 40, 70, 110, 160, 220]
     = [20, 10, 10, 10, 20, 30, 40, 50, 60, 50, 40]"
  by (simp add: deltas_mirrored_ends_def example_deltas py_slice_def slice_index_def)

lemma example_spec_deltas:
  "spec_deltas_mirrored_ends 3 [10, 20, 40, 70, 110, 160, 220]
      = [60, 50, 10, 10, 20, 30, 40, 50, 60, 20, 10]"
  by (simp add: spec_deltas_mirrored_ends_def example_deltas py_slice_def slice_index_def)

lemma example_ratios:
  "map ratio example_facet = [Fin 10, Fin 20, Fin 40, Fin 70, Fin 110, Fin 160, Fin 220]"
  by (simp add: example_facet_def example_variant_def)

lemma example_padded_ratios:
  "rev (py_slice [Fin 10, Fin 20, Fin 40, Fin 70, Fin 110, Fin 160, Fin 220] (Some 1) (Some 3))
     @ [Fin 10, Fin 20, Fin 40, Fin 70, Fin 110, Fin 160, Fin 220]
     @ rev (py_slice [Fin 10, Fin 20, Fin 40, Fin 70, Fin 110, Fin 160, Fin 220]
          (Some (- 3)) (Some (- 1)))
     = [Fin 40, Fin 20, Fin 10, Fin 20, Fin 40, Fin 70, Fin 110, Fin 160, Fin 220, Fin 160,
        Fin 110]"
  by (simp add: py_slice_def slice_index_def)

lemma df_chr_padded_map: "map f (df_chr_padded eb df) = df_chr_padded eb (map f df)"
  by (simp add: df_chr_padded_def py_slice_map rev_map)

lemma spec_df_chr_padded_map: "map f (spec_df_chr_padded eb df) = spec_df_chr_padded eb (map f df)"
  by (simp add: spec_df_chr_padded_def py_slice_map rev_map)

lemma example_spec_padded_ratios:
  "spec_df_chr_padded 3 [Fin 10, Fin 20, Fin 40, Fin 70, Fin 110, Fin 160, Fin 220]
     = [Fin 220, Fin 160, Fin 10, Fin 20, Fin 40, Fin 70, Fin 110, Fin 160, Fin 220, Fin 20,
        Fin 10]"
  by (simp add: spec_df_chr_padded_def py_slice_def slice_index_def)

lemma example_cumsum:
  "map (\<lambda>k. sum_list (take k (tl [20, 10, 10, 10, 20, 30, 40, 50, 60, 50, 40 :: int])))
     [0..<length example_facet + 2 * (nat 3 - 1)]
   = [0, 10, 20, 30, 50, 80, 120, 170, 230, 280, 320]"
proof -
  have "length example_facet + 2 * (nat 3 - 1) = 11" by (simp add: example_facet_def)
  then show ?thesis by (simp add: upt_rec)
qed

lemma example_in_range:
  "sorted [10, 20, 40, 70, 110, 160, 220 :: int]
   \<and> (\<forall>p\<in>set [10, 20, 40, 70, 110, 160, 220 :: int]. 0 \<le> p \<and> p < 2 ^ 63)
   \<and> sum_list (tl [20, 10, 10, 10, 20, 30, 40, 50, 60, 50, 40 :: int]) < 2 ^ 63"
  by simp

subsection \<open>The padding of a facet\<close>

text \<open>
  C3. For every facet of at least \<open>edge_bound\<close> rows, with \<open>edge_bound\<close> at least 1, the
  padded delta sequence built before smoothing is
  \<open>reverse(deltas[1:edge_bound]) ++ deltas ++ reverse(deltas[-edge_bound:-1])\<close>: the mirror
  of the entries 1 to \<open>edge_bound - 1\<close> in front, the mirror of the \<open>edge_bound - 1\<close> entries
  before the last one behind. The pseudo positions are its cumulative sums in 64-bit
  arithmetic, starting from 0 and leaving out the first entry, and there are
  \<open>n + 2 * (edge_bound - 1)\<close> of them. Where the positions of the facet are sorted,
  non-negative 64-bit integers and the padded deltas after the first sum to less than
  \<open>2^63\<close>, the pseudo positions are these sums themselves and are sorted. The rows of the
  facet, and so each of the columns ratio, G_S and RS_G, are padded in the same way: the
  mirror of the rows 1 to \<open>edge_bound - 1\<close> in front, the mirror of the \<open>edge_bound - 1\<close> rows
  before the last one behind.
\<close>

theorem mirrored_padding:
  fixes df :: "variant list"
  assumes "1 \<le> eb" "eb \<le> int (length df)"
  shows "deltas_mirrored_ends eb (map pos df)
           = rev (py_slice (deltas_of (map pos df)) (Some 1) (Some eb))
             @ deltas_of (map pos df)
             @ rev (py_slice (deltas_of (map pos df)) (Some (- eb)) (Some (- 1)))
       \<and> psuedo_pos_of (deltas_mirrored_ends eb (map pos df))
           = map (\<lambda>k. int64 (sum_list (take k (tl (deltas_mirrored_ends eb (map pos df))))))
               [0..<length df + 2 * (nat eb - 1)]
       \<and> length (psuedo_pos_of (deltas_mirrored_ends eb (map pos df)))
           = length df + 2 * (nat eb - 1)
       \<and> (sorted (map pos df) \<and> (\<forall>p\<in>set (map pos df). 0 \<le> p \<and> p < 2 ^ 63)
            \<and> sum_list (tl (deltas_mirrored_ends eb (map pos df))) < 2 ^ 63
          \<longrightarrow> sorted (psuedo_pos_of (deltas_mirrored_ends eb (map pos df)))
            \<and> psuedo_pos_of (deltas_mirrored_ends eb (map pos df))
                = map (\<lambda>k. sum_list (take k (tl (deltas_mirrored_ends eb (map pos df)))))
                    [0..<length df + 2 * (nat eb - 1)])
       \<and> df_chr_padded eb df
           = rev (py_slice df (Some 1) (Some eb)) @ df
             @ rev (py_slice df (Some (- eb)) (Some (- 1)))
       \<and> map ratio (df_chr_padded eb df)
           = rev (py_slice (map ratio df) (Some 1) (Some eb)) @ map ratio df
             @ rev (py_slice (map ratio df) (Some (- eb)) (Some (- 1)))
       \<and> map G_S (df_chr_padded eb df)
           = rev (py_slice (map G_S df) (Some 1) (Some eb)) @ map G_S df
             @ rev (py_slice (map G_S df) (Some (- eb)) (Some (- 1)))
       \<and> map RS_G (df_chr_padded eb df)
           = rev (py_slice (map RS_G df) (Some 1) (Some eb)) @ map RS_G df
             @ rev (py_slice (map RS_G df) (Some (- eb)) (Some (- 1)))"
proof -
  let ?ds = "deltas_mirrored_ends eb (map pos df)"
  have len: "length ?ds = length df + 2 * (nat eb - 1)"
    using length_deltas_mirrored_ends[OF assms(1), of "map pos df"] assms(2) by simp
  have a: "?ds = rev (py_slice (deltas_of (map pos df)) (Some 1) (Some eb))
             @ deltas_of (map pos df)
             @ rev (py_slice (deltas_of (map pos df)) (Some (- eb)) (Some (- 1)))"
    using assms(1) by (rule deltas_mirrored_ends_eq)
  have b: "psuedo_pos_of ?ds
           = map (\<lambda>k. int64 (sum_list (take k (tl ?ds)))) [0..<length df + 2 * (nat eb - 1)]"
    using psuedo_pos_of_cumsum[of ?ds] by (simp only: len)
  have c: "length (psuedo_pos_of ?ds) = length df + 2 * (nat eb - 1)"
    by (simp only: length_psuedo_pos_of len)
  have d: "sorted (map pos df) \<and> (\<forall>p\<in>set (map pos df). 0 \<le> p \<and> p < 2 ^ 63)
            \<and> sum_list (tl ?ds) < 2 ^ 63
          \<longrightarrow> sorted (psuedo_pos_of ?ds)
            \<and> psuedo_pos_of ?ds
                = map (\<lambda>k. sum_list (take k (tl ?ds))) [0..<length df + 2 * (nat eb - 1)]"
  proof
    assume h: "sorted (map pos df) \<and> (\<forall>p\<in>set (map pos df). 0 \<le> p \<and> p < 2 ^ 63)
            \<and> sum_list (tl ?ds) < 2 ^ 63"
    then have nn: "\<forall>x\<in>set ?ds. 0 \<le> x"
      by (intro deltas_mirrored_ends_nonneg) simp_all
    from h have bound: "sum_list (tl ?ds) < 2 ^ 63" by simp
    have "sorted (psuedo_pos_of ?ds)" using nn bound by (rule sorted_psuedo_pos_of)
    moreover have "psuedo_pos_of ?ds
        = map (\<lambda>k. sum_list (take k (tl ?ds))) [0..<length df + 2 * (nat eb - 1)]"
      using psuedo_pos_of_in_range[OF nn bound] by (simp only: len)
    ultimately show "sorted (psuedo_pos_of ?ds)
            \<and> psuedo_pos_of ?ds
                = map (\<lambda>k. sum_list (take k (tl ?ds))) [0..<length df + 2 * (nat eb - 1)]"
      by (rule conjI)
  qed
  have e: "df_chr_padded eb df
           = rev (py_slice df (Some 1) (Some eb)) @ df
             @ rev (py_slice df (Some (- eb)) (Some (- 1)))"
    using assms(1) by (rule df_chr_padded_eq)
  have f: "map g (df_chr_padded eb df)
           = rev (py_slice (map g df) (Some 1) (Some eb)) @ map g df
             @ rev (py_slice (map g df) (Some (- eb)) (Some (- 1)))" for g :: "variant \<Rightarrow> npfloat"
    by (simp add: e py_slice_map rev_map)
  show ?thesis
    by (intro conjI a b c d e f)
qed

theorem mirrored_padding_witness:
  "deltas_mirrored_ends 3 (map pos example_facet) = [20, 10, 10, 10, 20, 30, 40, 50, 60, 50, 40]
   \<and> psuedo_pos_of (deltas_mirrored_ends 3 (map pos example_facet))
       = [0, 10, 20, 30, 50, 80, 120, 170, 230, 280, 320]
   \<and> sorted (psuedo_pos_of (deltas_mirrored_ends 3 (map pos example_facet)))
   \<and> map ratio (df_chr_padded 3 example_facet)
       = [Fin 40, Fin 20, Fin 10, Fin 20, Fin 40, Fin 70, Fin 110, Fin 160, Fin 220, Fin 160,
          Fin 110]"
proof -
  have h: "1 \<le> (3 :: int)" "3 \<le> int (length example_facet)"
    by (simp_all add: example_facet_def)
  note t = mirrored_padding[OF h, unfolded example_positions example_deltas_mirrored_ends
      example_ratios example_padded_ratios example_cumsum]
  from t have cum: "sorted [10, 20, 40, 70, 110, 160, 220 :: int]
       \<and> (\<forall>p\<in>set [10, 20, 40, 70, 110, 160, 220 :: int]. 0 \<le> p \<and> p < 2 ^ 63)
       \<and> sum_list (tl [20, 10, 10, 10, 20, 30, 40, 50, 60, 50, 40 :: int]) < 2 ^ 63
     \<longrightarrow> sorted (psuedo_pos_of [20, 10, 10, 10, 20, 30, 40, 50, 60, 50, 40])
       \<and> psuedo_pos_of [20, 10, 10, 10, 20, 30, 40, 50, 60, 50, 40]
           = [0, 10, 20, 30, 50, 80, 120, 170, 230, 280, 320]"
    by (elim conjE)
  from t have pad: "map ratio (df_chr_padded 3 example_facet)
       = [Fin 40, Fin 20, Fin 10, Fin 20, Fin 40, Fin 70, Fin 110, Fin 160, Fin 220, Fin 160,
          Fin 110]"
    by (elim conjE)
  from cum example_in_range
  have "sorted (psuedo_pos_of [20, 10, 10, 10, 20, 30, 40, 50, 60, 50, 40])
       \<and> psuedo_pos_of [20, 10, 10, 10, 20, 30, 40, 50, 60, 50, 40]
           = [0, 10, 20, 30, 50, 80, 120, 170, 230, 280, 320]"
    by (rule mp)
  with pad show ?thesis
    unfolding example_positions example_deltas_mirrored_ends by (intro conjI) simp_all
qed

text \<open>
  The padding as the specification words it puts the mirror of the last \<open>edge_bound - 1\<close>
  entries in front and the mirror of the first entries behind. On the example facet with
  \<open>edge_bound = 3\<close> both the padded deltas and the padded ratio column differ from it.
\<close>

theorem mirrored_padding_counterexample:
  "deltas_mirrored_ends 3 (map pos example_facet)
     \<noteq> spec_deltas_mirrored_ends 3 (map pos example_facet)
   \<and> map ratio (df_chr_padded 3 example_facet)
     \<noteq> map ratio (spec_df_chr_padded 3 example_facet)"
proof
  show "deltas_mirrored_ends 3 (map pos example_facet)
     \<noteq> spec_deltas_mirrored_ends 3 (map pos example_facet)"
    unfolding example_positions example_deltas_mirrored_ends example_spec_deltas by simp
  have "map ratio (df_chr_padded 3 example_facet)
      = df_chr_padded 3 [Fin 10, Fin 20, Fin 40, Fin 70, Fin 110, Fin 160, Fin 220]"
    by (simp only: df_chr_padded_map example_ratios)
  also have "\<dots> = [Fin 40, Fin 20, Fin 10, Fin 20, Fin 40, Fin 70, Fin 110, Fin 160, Fin 220,
      Fin 160, Fin 110]"
    by (simp add: df_chr_padded_def py_slice_def slice_index_def)
  finally show "map ratio (df_chr_padded 3 example_facet)
     \<noteq> map ratio (spec_df_chr_padded 3 example_facet)"
    unfolding spec_df_chr_padded_map example_ratios example_spec_padded_ratios by simp
qed

subsection \<open>The rows of a smoothed facet\<close>

lemma truncate_add_fit: "variant.truncate (add_fit (r, ry, gy, rgy)) = r"
  by (simp add: add_fit_def variant.defs fitted.defs)

lemma map_truncate_add_fit:
  assumes "length ys = length rows"
  shows "map (\<lambda>x. variant.truncate (add_fit x)) (zip rows ys) = rows"
proof -
  have "map (\<lambda>x. variant.truncate (add_fit x)) (zip rows ys) = map fst (zip rows ys)"
    by (intro map_cong refl) (auto simp add: truncate_add_fit)
  then show ?thesis using assms by simp
qed

lemma py_slice_padded:
  assumes "length front = k" "length back = k" "2 \<le> length xs"
  shows "py_slice (front @ xs @ back) (Some (int k + 1)) (Some (- (int k + 1)))
       = butlast (tl xs)"
proof -
  let ?n = "length (front @ xs @ back)"
  have n: "?n = length xs + 2 * k" using assms by simp
  have lo: "slice_index ?n (int k + 1) = k + 1"
    using assms by (simp add: slice_index_def)
  have hi: "slice_index ?n (- (int k + 1)) = length xs + k - 1"
    using assms by (simp add: slice_index_def nat_diff_distrib nat_add_distrib)
  have "py_slice (front @ xs @ back) (Some (int k + 1)) (Some (- (int k + 1)))
      = take (length xs + k - 1 - (k + 1)) (drop (k + 1) (front @ xs @ back))"
    unfolding py_slice_def Let_def option.case lo hi ..
  also have "drop (k + 1) (front @ xs @ back) = drop 1 xs @ back"
    using assms by simp
  also have "length xs + k - 1 - (k + 1) = length xs - 2" by simp
  also have "take (length xs - 2) (drop 1 xs @ back) = take (length xs - 2) (drop 1 xs)"
    by simp
  also have "\<dots> = butlast (tl xs)"
    by (simp add: butlast_conv_take drop_Suc numeral_2_eq_2)
  finally show ?thesis .
qed

lemma fit_single_chr_success:
  assumes len: "length (psuedo_pos_of (deltas_mirrored_ends eb (map pos df)))
      = length (df_chr_padded eb df)"
    and r: "smoothing_function (map ratio (df_chr_padded eb df))
        (map (\<lambda>p. Fin (real_of_int p)) (psuedo_pos_of (deltas_mirrored_ends eb (map pos df))))
        loess_span = Some z1" "length z1 = length (df_chr_padded eb df)"
    and g: "smoothing_function (map G_S (df_chr_padded eb df))
        (map (\<lambda>p. Fin (real_of_int p)) (psuedo_pos_of (deltas_mirrored_ends eb (map pos df))))
        loess_span = Some z2" "length z2 = length (df_chr_padded eb df)"
    and rg: "smoothing_function (map RS_G (df_chr_padded eb df))
        (map (\<lambda>p. Fin (real_of_int p)) (psuedo_pos_of (deltas_mirrored_ends eb (map pos df))))
        loess_span = Some z3" "length z3 = length (df_chr_padded eb df)"
  shows "fit_single_chr smoothing_function loess_span eb df
       = Inr (py_slice (map add_fit (zip (df_chr_padded eb df) (zip z1 (zip z2 z3))))
           (Some eb) (Some (- eb)))"
  unfolding fit_single_chr_def Let_def
  by (simp only: len r g rg option.case not_True_eq_False refl if_False)

text \<open>
  C1. The padding adds \<open>edge_bound - 1\<close> rows at each end and the final slice
  \<^verbatim>\<open>df_chr[smooth_edges_bounds:-smooth_edges_bounds]\<close> removes \<open>edge_bound\<close> rows at each
  end. So for every facet of \<open>n\<close> rows with \<open>n > 2 * edge_bound\<close> and \<open>edge_bound\<close> at least 1,
  and every smoothing function that gives one fitted value for each row it receives, the
  smoothing of the facet returns, and what it returns are the rows of the facet without
  the first and the last one, in the order of the facet, each with its three fitted values:
  \<open>n - 2\<close> rows, not \<open>n\<close>.
\<close>

theorem fit_single_chr_rows:
  fixes df :: "variant list"
  assumes eb: "1 \<le> eb" "2 * eb < int (length df)"
    and sm: "\<And>ys xs. length xs = length ys \<Longrightarrow>
        \<exists>zs. smoothing_function ys xs loess_span = Some zs \<and> length zs = length ys"
  shows "\<exists>rs. fit_single_chr smoothing_function loess_span eb df = Inr rs
           \<and> map variant.truncate rs = butlast (tl df)
           \<and> length rs = length df - 2"
proof -
  define k where "k = nat eb - 1"
  define front_pad where "front_pad = rev (py_slice df (Some 1) (Some eb))"
  define back_pad where "back_pad = rev (py_slice df (Some (- eb)) (Some (- 1)))"
  define X where "X = map (\<lambda>p. Fin (real_of_int p))
      (psuedo_pos_of (deltas_mirrored_ends eb (map pos df)))"
  have le: "eb \<le> int (length df)" using eb by simp
  have two: "2 \<le> length df" using eb by simp
  have ebk: "eb = int k + 1" using eb(1) by (simp add: k_def)
  have pad: "df_chr_padded eb df = front_pad @ df @ back_pad"
    unfolding front_pad_def back_pad_def using eb(1) by (rule df_chr_padded_eq)
  have lf: "length front_pad = k" "length back_pad = k"
    unfolding front_pad_def back_pad_def k_def
    using length_py_slice_front[OF eb(1) le] length_py_slice_back[OF eb(1) le] by simp_all
  have lpad: "length (df_chr_padded eb df) = length df + 2 * k"
    unfolding k_def using eb(1) le by (rule length_df_chr_padded)
  have lX: "length X = length (df_chr_padded eb df)"
    unfolding X_def lpad k_def
    using length_deltas_mirrored_ends[OF eb(1), of "map pos df"] le
    by (simp add: length_psuedo_pos_of)
  obtain z1 where z1: "smoothing_function (map ratio (df_chr_padded eb df)) X loess_span = Some z1"
      "length z1 = length (df_chr_padded eb df)"
    using sm[of X "map ratio (df_chr_padded eb df)"] lX by auto
  obtain z2 where z2: "smoothing_function (map G_S (df_chr_padded eb df)) X loess_span = Some z2"
      "length z2 = length (df_chr_padded eb df)"
    using sm[of X "map G_S (df_chr_padded eb df)"] lX by auto
  obtain z3 where z3: "smoothing_function (map RS_G (df_chr_padded eb df)) X loess_span = Some z3"
      "length z3 = length (df_chr_padded eb df)"
    using sm[of X "map RS_G (df_chr_padded eb df)"] lX by auto
  define rs where "rs = py_slice (map add_fit (zip (df_chr_padded eb df) (zip z1 (zip z2 z3))))
      (Some eb) (Some (- eb))"
  have lp: "length (psuedo_pos_of (deltas_mirrored_ends eb (map pos df)))
      = length (df_chr_padded eb df)"
    using lX by (simp add: X_def)
  have res: "fit_single_chr smoothing_function loess_span eb df = Inr rs"
    unfolding rs_def
    using lp z1[unfolded X_def] z2[unfolded X_def] z3[unfolded X_def]
    by (rule fit_single_chr_success)
  have "length (zip z1 (zip z2 z3)) = length (df_chr_padded eb df)"
    using z1(2) z2(2) z3(2) by simp
  then have "map (\<lambda>x. variant.truncate (add_fit x)) (zip (df_chr_padded eb df) (zip z1 (zip z2 z3)))
      = df_chr_padded eb df"
    by (rule map_truncate_add_fit)
  then have "map variant.truncate rs = py_slice (df_chr_padded eb df) (Some eb) (Some (- eb))"
    unfolding rs_def by (simp add: py_slice_map[symmetric] comp_def)
  also have "\<dots> = py_slice (front_pad @ df @ back_pad) (Some (int k + 1)) (Some (- (int k + 1)))"
    unfolding pad by (simp only: ebk[symmetric])
  also have "\<dots> = butlast (tl df)"
    using lf two by (rule py_slice_padded)
  finally have rows: "map variant.truncate rs = butlast (tl df)" .
  have "length rs = length (map variant.truncate rs)" by simp
  also have "\<dots> = length df - 2" unfolding rows by simp
  finally have "length rs = length df - 2" .
  with res rows show ?thesis by blast
qed

theorem fit_single_chr_rows_witness:
  "\<exists>rs. fit_single_chr returns_input (3 / 10) 3 example_facet = Inr rs
      \<and> map variant.truncate rs = map example_variant [20, 40, 70, 110, 160]
      \<and> length rs = 5 \<and> length example_facet = 7"
proof -
  have h: "1 \<le> (3 :: int)" "2 * 3 < int (length example_facet)"
    by (simp_all add: example_facet_def)
  have sm: "\<exists>zs. returns_input ys xs (3 / 10) = Some zs \<and> length zs = length ys" for ys xs
    by (simp add: returns_input_def)
  have rows: "butlast (tl example_facet) = map example_variant [20, 40, 70, 110, 160]"
    by (simp add: example_facet_def)
  have len: "length example_facet = 7" by (simp add: example_facet_def)
  show ?thesis
    using fit_single_chr_rows[of 3 example_facet returns_input "3 / 10", OF h sm]
    by (simp add: rows len)
qed

section \<open>Properties of the subsample fraction\<close>

text \<open>
  C8. For every number of variants \<open>n\<close>, the subsample fraction is 0.05 when
  \<open>n > 20000\<close>, 1 when \<open>n < 1000\<close>, and otherwise the value at \<open>n\<close> of the line through
  1 at \<open>n = 1000\<close> and 0.05 at \<open>n = 20000\<close>.
\<close>

theorem subsample_frac_cases:
  "subsample_frac n =
     (if 20000 < n then 5 / 100
      else if n < 1000 then 1
      else 1 + (real n - 1000) * ((5 / 100 - 1) / (20000 - 1000)))"
  by (simp add: subsample_frac_def np_interp_def algebra_simps)

theorem subsample_frac_cases_witness:
  "subsample_frac 500 = 1 \<and> subsample_frac 1000 = 1 \<and> subsample_frac 10500 = 21 / 40
   \<and> subsample_frac 20000 = 1 / 20 \<and> subsample_frac 30000 = 1 / 20"
  using subsample_frac_cases [of 500] subsample_frac_cases [of 1000]
    subsample_frac_cases [of 10500] subsample_frac_cases [of 20000]
    subsample_frac_cases [of 30000]
  by simp

section \<open>EmpiricalCutoffEstimator: theorems on the bootstrap\<close>

subsection \<open>Percentiles of a pool\<close>

lemma inj_float_key: "inj float_key"
proof (rule injI)
  fix x y assume "float_key x = float_key y"
  then show "x = y" by (cases x; cases y) simp_all
qed

lemma sort_key_float_key_mset:
  assumes "mset xs = mset ys"
  shows "sort_key float_key xs = sort_key float_key ys"
proof (rule sort_key_inj_key_eq)
  show "mset xs = mset (sort_key float_key ys)" using assms by simp
  show "inj_on float_key (set xs)" using inj_float_key by (rule inj_on_subset) simp
  show "sorted (map float_key (sort_key float_key ys))" by simp
qed

lemma mset_concat_cong:
  assumes "mset xss = mset yss"
  shows "mset (concat xss) = mset (concat yss)"
proof -
  have "mset (concat xss) = sum_mset (image_mset mset (mset xss))" for xss :: "'a list list"
    by (induction xss) simp_all
  then show ?thesis using assms by simp
qed

lemma np_percentile_mset:
  assumes "mset a' = mset a"
  shows "np_percentile a' q = np_percentile a q"
proof -
  have "set (map length a') = set (map length a)"
    using assms by (metis mset_eq_setD mset_map)
  then have ragged: "length (remdups (map length a')) = length (remdups (map length a))"
    by (simp only: length_remdups_card_conv)
  have pooled: "mset (concat a') = mset (concat a)" using assms by (rule mset_concat_cong)
  then have empty: "(concat a' = []) = (concat a = [])"
    by (metis mset_zero_iff)
  have "set (concat a') = set (concat a)" using pooled by (rule mset_eq_setD)
  then have nan: "list_ex (\<lambda>x. x = NaN) (concat a') = list_ex (\<lambda>x. x = NaN) (concat a)"
    by (simp only: list_ex_iff)
  have sorted: "sort_key float_key (concat a') = sort_key float_key (concat a)"
    using pooled by (rule sort_key_float_key_mset)
  show ?thesis unfolding np_percentile_def ragged empty nan sorted ..
qed

lemma example_percentiles:
  "np_percentile [[Fin 1, Fin 4], [Fin 3, Fin 2]] 95 = Inr (Fin (77 / 20))"
  "np_percentile [[Fin (1 / 2), Fin (- (1 / 2))], [Fin 0, Fin (1 / 4)]] 95 = Inr (Fin (37 / 80))"
  "np_percentile [[Fin (1 / 2), Fin (- 2)], [Fin 0, Fin (1 / 2)]] 95 = Inr (Fin (1 / 2))"
  "np_percentile [[Fin 0, Fin 1], [Fin 2, Fin 3]] (9999 / 100) = Inr (Fin (29997 / 10000))"
  by (simp_all add: np_percentile_def lerp_def Let_def less_eq_prod_def less_prod_def
      minus_npfloat_def)

lemma example_cutoffs:
  "cutoffs_of_results [example_trial_1, example_trial_2]
     = Inr (Fin (77 / 20), Fin (37 / 80), Fin (1 / 2), Fin (29997 / 10000))"
  by (simp add: cutoffs_of_results_def example_trial_1_def example_trial_2_def
      example_percentiles)

text \<open>
  C7. The four cutoffs are a function of the multiset of the per-trial results: whenever
  two lists of trial results are permutations of each other, the 95th percentiles of the
  pooled G_S, ratio and RS_G values and the 99.99th percentile of the pooled smoothed RS_G
  values computed from the one list are those computed from the other, and the
  computation fails for the one list exactly when it fails for the other.
\<close>

theorem cutoffs_order_independent:
  assumes "mset results' = mset results"
  shows "cutoffs_of_results results' = cutoffs_of_results results"
proof -
  have m: "mset (map f results') = mset (map f results)" for f :: "trial \<Rightarrow> npfloat list"
    using assms by (metis mset_map)
  show ?thesis
    unfolding cutoffs_of_results_def Let_def
    by (simp only: np_percentile_mset[OF m])
qed

theorem cutoffs_order_independent_witness:
  "cutoffs_of_results [example_trial_2, example_trial_1]
     = Inr (Fin (77 / 20), Fin (37 / 80), Fin (1 / 2), Fin (29997 / 10000))"
  using cutoffs_order_independent [of "[example_trial_2, example_trial_1]"
      "[example_trial_1, example_trial_2]"]
  by (simp add: example_cutoffs add.commute)

section \<open>Properties of the labels\<close>

lemma isclose_refl: "x \<noteq> NaN \<Longrightarrow> isclose x x"
  by (cases x) (simp_all add: np_eq_def atol_def rtol_def)

lemma tolerant_ge_iff: "tolerant_ge x c \<longleftrightarrow> isclose x c \<or> c < x"
  using isclose_refl[of x] by (auto simp add: tolerant_ge_def less_eq_npfloat_def)

lemma flag_tolerant: "flag x c = (if tolerant_ge x c then 1 else 0)"
  by (simp add: flag_def tolerant_ge_iff)

text \<open>
  C9. For every record of the table and every set of cutoffs, labelling sets
  \<^verbatim>\<open>G_S_05p\<close> to 1 exactly when \<^verbatim>\<open>G_S\<close> is at least \<^verbatim>\<open>gs_cutoff\<close> under the tolerant
  comparison, \<^verbatim>\<open>RS_G_05p\<close> likewise for \<^verbatim>\<open>RS_G\<close> and \<^verbatim>\<open>rsg_cutoff\<close>, and
  \<^verbatim>\<open>RS_G_yhat_01p\<close> for \<^verbatim>\<open>RS_G_yhat\<close> and \<^verbatim>\<open>rsg_y_cutoff\<close>; otherwise the flag is 0.
  The other columns of the record and the number of records are unchanged.
\<close>

theorem label_flags:
  assumes "i < length vcf_df"
  shows "G_S_05p (label_df_with_cutoffs vcf_df gs_cutoff rsg_cutoff rsg_y_cutoff ! i)
           = (if tolerant_ge (G_S (vcf_df ! i)) gs_cutoff then 1 else 0)
       \<and> RS_G_05p (label_df_with_cutoffs vcf_df gs_cutoff rsg_cutoff rsg_y_cutoff ! i)
           = (if tolerant_ge (RS_G (vcf_df ! i)) rsg_cutoff then 1 else 0)
       \<and> RS_G_yhat_01p (label_df_with_cutoffs vcf_df gs_cutoff rsg_cutoff rsg_y_cutoff ! i)
           = (if tolerant_ge (RS_G_yhat (vcf_df ! i)) rsg_y_cutoff then 1 else 0)
       \<and> fitted.truncate (label_df_with_cutoffs vcf_df gs_cutoff rsg_cutoff rsg_y_cutoff ! i)
           = vcf_df ! i
       \<and> length (label_df_with_cutoffs vcf_df gs_cutoff rsg_cutoff rsg_y_cutoff) = length vcf_df"
  using assms
  by (simp add: label_df_with_cutoffs_def add_labels_def flag_tolerant fitted.defs labeled.defs)

text \<open>
  A record at its cutoff, a record within the tolerance below its cutoff, and a record
  clearly below its cutoff.
\<close>

theorem label_flags_witness:
  "G_S_05p (label_df_with_cutoffs [example_fitted 3 1 (1 / 2)]
        (Fin 3) (Fin (100001 / 100000)) (Fin 1) ! 0) = 1
   \<and> RS_G_05p (label_df_with_cutoffs [example_fitted 3 1 (1 / 2)]
        (Fin 3) (Fin (100001 / 100000)) (Fin 1) ! 0) = 1
   \<and> RS_G_yhat_01p (label_df_with_cutoffs [example_fitted 3 1 (1 / 2)]
        (Fin 3) (Fin (100001 / 100000)) (Fin 1) ! 0) = 0"
  using label_flags [of 0 "[example_fitted 3 1 (1 / 2)]" "Fin 3" "Fin (100001 / 100000)" "Fin 1"]
  by (simp add: example_fitted_def tolerant_ge_def less_eq_npfloat_def atol_def rtol_def)

end
